theory Spec2Isabelle
  imports Complex_Main "HOL-Library.Word" "HOL-Library.AList"
begin

section \<open>JavaScript values\<close>

text \<open>
  The gateway reads its requests with \<^verbatim>\<open>request.json()\<close>, so a field of a request can
  hold any JSON value, whatever the TypeScript interface says; \<^verbatim>\<open>validateRequest\<close> tests
  the fields with \<^verbatim>\<open>typeof\<close> for that reason. A number is a finite value, an infinity or
  NaN. The finite values are taken from the reals, which contain every double; the two
  zeros of a double are one value here, as \<^verbatim>\<open>-0 === 0\<close> holds and both print as
  \<^verbatim>\<open>0\<close>. Strings are well-formed text, held as the bytes of its UTF-8 encoding.
\<close>

datatype jsnum = Fin real | PosInf | NegInf | NaN

datatype jsval =
    JUndefined
  | JNull
  | JBool bool
  | JNum jsnum
  | JStr string
  | JArr "jsval list"
  | JObj "(string \<times> jsval) list"

text \<open>\<^verbatim>\<open>!v\<close> is false exactly on the truthy values.\<close>

fun truthy :: "jsval \<Rightarrow> bool" where
  "truthy JUndefined = False"
| "truthy JNull = False"
| "truthy (JBool b) = b"
| "truthy (JNum n) = (n \<noteq> Fin 0 \<and> n \<noteq> NaN)"
| "truthy (JStr s) = (s \<noteq> [])"
| "truthy (JArr xs) = True"
| "truthy (JObj fs) = True"

fun is_string :: "jsval \<Rightarrow> bool" where
  "is_string (JStr s) = True"
| "is_string v = False"

fun is_number :: "jsval \<Rightarrow> bool" where
  "is_number (JNum n) = True"
| "is_number v = False"

fun nullish :: "jsval \<Rightarrow> bool" where
  "nullish JUndefined = True"
| "nullish JNull = True"
| "nullish v = False"

text \<open>\<^verbatim>\<open>a ?? b\<close> and \<^verbatim>\<open>a || b\<close>.\<close>

definition coalesce :: "jsval \<Rightarrow> jsval \<Rightarrow> jsval" where
  "coalesce a b = (if nullish a then b else a)"

definition or_else :: "jsval \<Rightarrow> jsval \<Rightarrow> jsval" where
  "or_else a b = (if truthy a then a else b)"

subsection \<open>Thrown values\<close>

text \<open>
  A thrown value is its kind and its message. A computation that may throw returns the
  thrown value on the left; \<open>and_then\<close> runs the next step unless something was thrown,
  and \<open>collect\<close> runs a list of computations in order, up to the first that throws.
\<close>

datatype js_error = Error string | DataError string | TypeError string | SyntaxError string

fun message :: "js_error \<Rightarrow> string" where
  "message (Error m) = m"
| "message (DataError m) = m"
| "message (TypeError m) = m"
| "message (SyntaxError m) = m"

definition and_then :: "js_error + 'a \<Rightarrow> ('a \<Rightarrow> js_error + 'b) \<Rightarrow> js_error + 'b" where
  "and_then x f = (case x of Inl e \<Rightarrow> Inl e | Inr y \<Rightarrow> f y)"

fun collect :: "(js_error + 'a) list \<Rightarrow> js_error + 'a list" where
  "collect [] = Inr []"
| "collect (x # xs) = and_then x (\<lambda>y. and_then (collect xs) (\<lambda>ys. Inr (y # ys)))"

subsection \<open>Numbers and values as text\<close>

definition digit_char :: "nat \<Rightarrow> char" where
  "digit_char d = ''0123456789abcdef'' ! d"

fun dec_nat :: "nat \<Rightarrow> string" where
  "dec_nat n = (if n < 10 then [digit_char n] else dec_nat (n div 10) @ [digit_char (n mod 10)])"

declare dec_nat.simps [simp del]

definition dec_int :: "int \<Rightarrow> string" where
  "dec_int i = (if i < 0 then CHR ''-'' # dec_nat (nat (- i)) else dec_nat (nat i))"

text \<open>
  \<^verbatim>\<open>Number::toString\<close>. An integer below \<open>2\<^sup>5\<^sup>3\<close> in magnitude prints as its decimal
  digits. Every other finite number prints as the shortest digits that read back as the
  same double, which the reals do not determine: that rendering is the parameter
  \<open>other\<close>.
\<close>

fun number_to_string :: "(real \<Rightarrow> string) \<Rightarrow> jsnum \<Rightarrow> string" where
  "number_to_string other (Fin r) =
     (if r = of_int \<lfloor>r\<rfloor> \<and> \<bar>r\<bar> < 2 ^ 53 then dec_int \<lfloor>r\<rfloor> else other r)"
| "number_to_string other PosInf = ''Infinity''"
| "number_to_string other NegInf = ''-Infinity''"
| "number_to_string other NaN = ''NaN''"

fun join :: "string \<Rightarrow> string list \<Rightarrow> string" where
  "join sep [] = []"
| "join sep [s] = s"
| "join sep (s # t # ss) = s @ sep @ join sep (t # ss)"

text \<open>
  The text a value contributes to a template literal \<^verbatim>\<open>`${v}`\<close>, or the TypeError the
  conversion throws. An array prints its elements joined by commas, null and undefined
  elements as the empty text. An object read from JSON has no function among its
  properties: with a property \<^verbatim>\<open>toString\<close> of its own it has no callable \<^verbatim>\<open>toString\<close>
  and the conversion throws; any other object prints as \<^verbatim>\<open>[object Object]\<close>.
\<close>

fun to_string :: "(real \<Rightarrow> string) \<Rightarrow> jsval \<Rightarrow> js_error + string" where
  "to_string other JUndefined = Inr ''undefined''"
| "to_string other JNull = Inr ''null''"
| "to_string other (JBool b) = Inr (if b then ''true'' else ''false'')"
| "to_string other (JNum n) = Inr (number_to_string other n)"
| "to_string other (JStr s) = Inr s"
| "to_string other (JArr xs) =
     and_then (collect (map (\<lambda>x. if nullish x then Inr [] else to_string other x) xs))
       (\<lambda>ss. Inr (join '','' ss))"
| "to_string other (JObj fs) =
     (if ''toString'' \<in> set (map fst fs)
      then Inl (TypeError ''Cannot convert object to primitive value'')
      else Inr ''[object Object]'')"

subsection \<open>Bytes\<close>

type_synonym byte = "8 word"

text \<open>\<^verbatim>\<open>new TextEncoder().encode(s)\<close>; an absent argument encodes as the empty text.\<close>

definition encode :: "string \<Rightarrow> byte list" where
  "encode s = map of_char s"

text \<open>\<^verbatim>\<open>b.toString(16).padStart(2, '0')\<close> for a byte, and the join of a buffer.\<close>

definition byte_hex :: "byte \<Rightarrow> string" where
  "byte_hex b =
     (let n = unat b;
          s = (if n < 16 then [digit_char n] else [digit_char (n div 16), digit_char (n mod 16)])
      in if length s < 2 then CHR ''0'' # s else s)"

definition hex :: "byte list \<Rightarrow> string" where
  "hex bs = concat (map byte_hex bs)"

definition hex_digit :: "char \<Rightarrow> bool" where
  "hex_digit c = (c \<in> set ''0123456789abcdef'')"

section \<open>The host\<close>

text \<open>
  What the platform supplies and the repository only calls: the SHA-256 digest and the
  HMAC-SHA256 tag of \<^verbatim>\<open>crypto.subtle\<close>, and the rendering of the numbers that
  \<open>number_to_string\<close> leaves open.
\<close>

record host =
  sha256 :: "byte list \<Rightarrow> byte list"
  hmac_sha256 :: "byte list \<Rightarrow> byte list \<Rightarrow> byte list"
  number_str :: "real \<Rightarrow> string"

section \<open>Requests (types.ts)\<close>

text \<open>A field that the JSON object does not have reads as \<open>JUndefined\<close>.\<close>

record GatewayRequest =
  model :: jsval
  prompt :: jsval
  seed :: jsval
  temperature :: jsval
  max_tokens :: jsval
  system_prompt :: jsval

section \<open>utils.ts\<close>

subsection \<open>generateCacheKey\<close>

definition keyString :: "host \<Rightarrow> GatewayRequest \<Rightarrow> js_error + string" where
  "keyString h req =
     (let temperature = coalesce (temperature req) (JNum (Fin 0));
          maxTokens = coalesce (max_tokens req) (JNum (Fin 150));
          systemPrompt = coalesce (system_prompt req) (JStr [])
      in and_then (to_string (number_str h) (model req)) (\<lambda>m.
         and_then (to_string (number_str h) (prompt req)) (\<lambda>p.
         and_then (to_string (number_str h) systemPrompt) (\<lambda>s.
         and_then (to_string (number_str h) temperature) (\<lambda>t.
         and_then (to_string (number_str h) (seed req)) (\<lambda>sd.
         and_then (to_string (number_str h) maxTokens) (\<lambda>mt.
           Inr (m @ '':'' @ p @ '':'' @ s @ '':'' @ t @ '':'' @ sd @ '':'' @ mt))))))))"

definition generateCacheKey :: "host \<Rightarrow> GatewayRequest \<Rightarrow> js_error + string" where
  "generateCacheKey h req =
     and_then (keyString h req) (\<lambda>keyString. Inr (hex (sha256 h (encode keyString))))"







subsection \<open>validateRequest\<close>

record validation =
  valid :: bool
  error :: "string option"

definition validateRequest :: "GatewayRequest \<Rightarrow> validation" where
  "validateRequest req =
     (if \<not> truthy (model req) \<or> \<not> is_string (model req) then
        \<lparr>valid = False, error = Some ''Missing or invalid model''\<rparr>
      else if \<not> truthy (prompt req) \<or> \<not> is_string (prompt req) then
        \<lparr>valid = False, error = Some ''Missing or invalid prompt''\<rparr>
      else if \<not> is_number (seed req) then
        \<lparr>valid = False, error = Some ''Missing or invalid seed (must be a number)''\<rparr>
      else if coalesce (temperature req) (JNum (Fin 0)) \<noteq> JNum (Fin 0) then
        \<lparr>valid = False, error = Some ''Temperature must be 0 for deterministic results''\<rparr>
      else \<lparr>valid = True, error = None\<rparr>)"

subsection \<open>generateSignature\<close>

text \<open>
  \<^verbatim>\<open>crypto.subtle.importKey\<close> with the format \<^verbatim>\<open>raw\<close> and the algorithm HMAC rejects key
  data of length zero with a DataError and takes every other key; the code has no check
  of its own.
\<close>

definition importKey :: "byte list \<Rightarrow> js_error + byte list" where
  "importKey keyData =
     (if keyData = [] then Inl (DataError ''Zero-length key is not supported'')
      else Inr keyData)"

text \<open>The secret is \<open>None\<close> when the binding \<^verbatim>\<open>SIGNING_SECRET\<close> is not set.\<close>

definition generateSignature ::
  "host \<Rightarrow> string \<Rightarrow> string \<Rightarrow> string option \<Rightarrow> js_error + string" where
  "generateSignature h requestHash content secret =
     (let keyData = encode (case secret of None \<Rightarrow> [] | Some s \<Rightarrow> s) in
      case importKey keyData of
        Inl e \<Rightarrow> Inl e
      | Inr key \<Rightarrow>
          (let signatureData = encode (requestHash @ '':'' @ content);
               signature = hmac_sha256 h key signatureData
           in Inr (hex signature)))"

subsection \<open>extractContent\<close>

text \<open>
  Of the upstream response the code reads \<^verbatim>\<open>choices\<close>, its length, and
  \<^verbatim>\<open>choices[0].message?.content\<close>. The response has the shape of the interface
  \<^verbatim>\<open>OpenAIResponse\<close>, loosened where the code checks: \<open>choices\<close> is \<open>None\<close> when the field
  is missing or null, a choice holds its message if it has one, and the content of a
  message is any value.
\<close>

datatype openai_message = Message string jsval

datatype openai_choice = Choice "openai_message option"

record OpenAIResponse =
  choices :: "openai_choice list option"

definition extractContent :: "OpenAIResponse \<Rightarrow> js_error + string" where
  "extractContent openaiResponse =
     (case choices openaiResponse of
        None \<Rightarrow> Inl (Error ''No choices in OpenAI response'')
      | Some [] \<Rightarrow> Inl (Error ''No choices in OpenAI response'')
      | Some (Choice m # cs) \<Rightarrow>
          (let content = (case m of None \<Rightarrow> JUndefined | Some (Message role c) \<Rightarrow> c) in
           case content of
             JStr s \<Rightarrow> Inr s
           | _ \<Rightarrow> Inl (Error ''Invalid content in OpenAI response'')))"

section \<open>The coordinator (class AICacheDurableObject)\<close>

record CachedEntry =
  content :: string
  entry_model :: jsval
  entry_seed :: jsval
  request_hash :: string
  cached_at :: int
  last_accessed :: int
  hit_count :: int

record OpenAIRequest =
  oa_model :: jsval
  messages :: "(string \<times> jsval) list"
  oa_temperature :: jsval
  oa_seed :: jsval
  oa_max_tokens :: jsval

text \<open>
  What the \<^verbatim>\<open>fetch\<close> to the upstream API comes back with: the call itself fails, or the
  response is not \<^verbatim>\<open>ok\<close> (status and text), or its body is not JSON, or it is a parsed
  body.
\<close>

datatype upstream_reply =
    Rejected js_error
  | NotOk nat string
  | BadBody js_error
  | Ok OpenAIResponse

text \<open>
  The state of one coordinator. \<open>storage\<close> is \<^verbatim>\<open>state.storage\<close>, an association list
  with \<^verbatim>\<open>get\<close>, \<^verbatim>\<open>put\<close>, \<^verbatim>\<open>delete\<close> and \<^verbatim>\<open>list\<close> as \<open>map_of\<close>, \<open>AList.update\<close>,
  \<open>AList.delete\<close> and the list itself. \<open>pendingRequests\<close> maps a key to the promise of
  the generation in flight, a promise being what it settles to. \<open>upstream_calls\<close> and
  \<open>digests\<close> are not fields of the class: they record the requests this object has
  sent upstream and the keys it has derived, oldest first.
\<close>

type_synonym promise = "js_error + CachedEntry"

record do_state =
  storage :: "(string \<times> CachedEntry) list"
  pendingRequests :: "string \<rightharpoonup> promise"
  upstream_calls :: "OpenAIRequest list"
  digests :: "string list"

text \<open>The request that \<^verbatim>\<open>callOpenAI\<close> builds and sends.\<close>

definition openaiRequest :: "GatewayRequest \<Rightarrow> OpenAIRequest" where
  "openaiRequest req =
     (let systemPrompt = or_else (system_prompt req) (JStr ''You are a helpful assistant.'');
          maxTokens = or_else (max_tokens req) (JNum (Fin 150))
      in \<lparr>oa_model = model req,
          messages = [(''system'', systemPrompt), (''user'', prompt req)],
          oa_temperature = JNum (Fin 0),
          oa_seed = seed req,
          oa_max_tokens = maxTokens\<rparr>)"

text \<open>What \<^verbatim>\<open>callOpenAI\<close> makes of the reply: the content, or the error it throws.\<close>

definition reply_content :: "upstream_reply \<Rightarrow> js_error + string" where
  "reply_content reply =
     (case reply of
        Rejected e \<Rightarrow> Inl e
      | NotOk status errorText \<Rightarrow>
          Inl (Error (''OpenAI API error: '' @ dec_nat status @ '' - '' @ errorText))
      | BadBody e \<Rightarrow> Inl e
      | Ok openaiResponse \<Rightarrow> extractContent openaiResponse)"

definition callOpenAI ::
  "(OpenAIRequest \<Rightarrow> upstream_reply) \<Rightarrow> GatewayRequest \<Rightarrow> do_state \<Rightarrow>
     (js_error + string) \<times> do_state" where
  "callOpenAI openai req st =
     (let st' = st\<lparr>upstream_calls := upstream_calls st @ [openaiRequest req]\<rparr> in
      (reply_content (openai (openaiRequest req)), st'))"

text \<open>
  \<open>now\<close> is the reading of \<^verbatim>\<open>Date.now()\<close>. The entry is built in one object literal with
  no \<^verbatim>\<open>await\<close> between its two readings, and the Workers clock moves only at I/O, so
  both readings are one value. \<open>new_entry\<close> is that literal.
\<close>

definition new_entry :: "string \<Rightarrow> GatewayRequest \<Rightarrow> string \<Rightarrow> int \<Rightarrow> CachedEntry" where
  "new_entry c req cacheKey now =
     \<lparr>content = c,
      entry_model = model req,
      entry_seed = seed req,
      request_hash = cacheKey,
      cached_at = now,
      last_accessed = now,
      hit_count = 0\<rparr>"

definition generateAndCache ::
  "(OpenAIRequest \<Rightarrow> upstream_reply) \<Rightarrow> int \<Rightarrow> string \<Rightarrow> GatewayRequest \<Rightarrow> do_state \<Rightarrow>
     promise \<times> do_state" where
  "generateAndCache openai now cacheKey req st =
     (case callOpenAI openai req st of
        (Inl e, st') \<Rightarrow> (Inl e, st')
      | (Inr c, st') \<Rightarrow>
          (let entry = new_entry c req cacheKey now
           in (Inr entry, st'\<lparr>storage := AList.update cacheKey entry (storage st')\<rparr>)))"

text \<open>
  One call, run to its end. A request whose key cannot be derived throws before anything
  else happens. The caller that finds a promise in \<open>pendingRequests\<close> waits
  for it and gets what it settles to. The caller that finds none starts the generation,
  registers its promise, waits for it, and deletes the registration in the
  \<^verbatim>\<open>finally\<close> block whether the promise was fulfilled or rejected. The result pairs the
  entry with the flag \<^verbatim>\<open>cached\<close>.
\<close>

definition getOrGenerateResponse ::
  "host \<Rightarrow> (OpenAIRequest \<Rightarrow> upstream_reply) \<Rightarrow> int \<Rightarrow> GatewayRequest \<Rightarrow> do_state \<Rightarrow>
     (js_error + CachedEntry \<times> bool) \<times> do_state" where
  "getOrGenerateResponse h openai now req st0 =
     (case generateCacheKey h req of
        Inl e \<Rightarrow> (Inl e, st0)
      | Inr cacheKey \<Rightarrow>
          (let st = st0\<lparr>digests := digests st0 @ [cacheKey]\<rparr> in
           case map_of (storage st) cacheKey of
             Some cached \<Rightarrow>
               (let cached' = cached\<lparr>last_accessed := now,
                                      hit_count := (if hit_count cached = 0 then 0 else hit_count cached) + 1\<rparr>
                in (Inr (cached', True), st\<lparr>storage := AList.update cacheKey cached' (storage st)\<rparr>))
           | None \<Rightarrow>
               (case pendingRequests st cacheKey of
                  Some pending \<Rightarrow>
                    (case pending of
                       Inl e \<Rightarrow> (Inl e, st)
                     | Inr result \<Rightarrow> (Inr (result, True), st))
                | None \<Rightarrow>
                    (let (generationPromise, st1) = generateAndCache openai now cacheKey req st;
                         st2 = st1\<lparr>pendingRequests := (pendingRequests st1)(cacheKey \<mapsto> generationPromise)\<rparr>;
                         st3 = st2\<lparr>pendingRequests := (pendingRequests st2)(cacheKey := None)\<rparr>
                     in case generationPromise of
                          Inl e \<Rightarrow> (Inl e, st3)
                        | Inr result \<Rightarrow> (Inr (result, False), st3)))))"

subsection \<open>cleanupExpiredEntries\<close>

text \<open>
  \<^verbatim>\<open>parseInt(s, 10)\<close>: leading white space is skipped, one sign is read, then the
  longest run of decimal digits; with no digit the result is NaN, here \<open>None\<close>. The white
  space is that of JavaScript, each character as the bytes of its UTF-8 encoding: tab,
  line feed, vertical tab, form feed, carriage return and space; U+00A0 (the bytes C2
  A0); U+1680; U+2000 to U+200A; the line and paragraph separators U+2028 and U+2029;
  U+202F; U+205F; U+3000; and U+FEFF. \<open>space_len\<close> is the number of bytes of the white
  space character that a text begins with, 0 if it begins with none. The value of the
  digits is the exact integer; \<^verbatim>\<open>parseInt\<close> returns the nearest double, which is that
  integer below \<open>2\<^sup>5\<^sup>3\<close>.
\<close>

definition white_space :: "string list" where
  "white_space =
     [[CHR 0x09], [CHR 0x0A], [CHR 0x0B], [CHR 0x0C], [CHR 0x0D], [CHR 0x20],
      [CHR 0xC2, CHR 0xA0],
      [CHR 0xE1, CHR 0x9A, CHR 0x80],
      [CHR 0xE2, CHR 0x80, CHR 0x80], [CHR 0xE2, CHR 0x80, CHR 0x81],
      [CHR 0xE2, CHR 0x80, CHR 0x82], [CHR 0xE2, CHR 0x80, CHR 0x83],
      [CHR 0xE2, CHR 0x80, CHR 0x84], [CHR 0xE2, CHR 0x80, CHR 0x85],
      [CHR 0xE2, CHR 0x80, CHR 0x86], [CHR 0xE2, CHR 0x80, CHR 0x87],
      [CHR 0xE2, CHR 0x80, CHR 0x88], [CHR 0xE2, CHR 0x80, CHR 0x89],
      [CHR 0xE2, CHR 0x80, CHR 0x8A],
      [CHR 0xE2, CHR 0x80, CHR 0xA8], [CHR 0xE2, CHR 0x80, CHR 0xA9],
      [CHR 0xE2, CHR 0x80, CHR 0xAF],
      [CHR 0xE2, CHR 0x81, CHR 0x9F],
      [CHR 0xE3, CHR 0x80, CHR 0x80],
      [CHR 0xEF, CHR 0xBB, CHR 0xBF]]"

definition space_len :: "string \<Rightarrow> nat" where
  "space_len s =
     (case find (\<lambda>w. take (length w) s = w) white_space of
        None \<Rightarrow> 0
      | Some w \<Rightarrow> length w)"

function skip_space :: "string \<Rightarrow> string" where
  "skip_space s = (if space_len s = 0 then s else skip_space (drop (space_len s) s))"
  by pat_completeness auto
termination
proof (relation "measure length")
  fix s :: string
  assume "space_len s \<noteq> 0"
  then obtain w where "find (\<lambda>w. take (length w) s = w) white_space = Some w"
    and w: "space_len s = length w" "length w \<noteq> 0"
    by (auto simp: space_len_def split: option.splits)
  then have "take (length w) s = w"
    by (auto simp: find_Some_iff)
  then have "length (take (length w) s) = length w"
    by simp
  then have "length w \<le> length s"
    by simp
  then show "(drop (space_len s) s, s) \<in> measure length"
    using w by (cases w) auto
qed simp

declare skip_space.simps [simp del]

definition is_digit :: "char \<Rightarrow> bool" where
  "is_digit c = (48 \<le> (of_char c :: nat) \<and> (of_char c :: nat) \<le> 57)"

definition digits_value :: "string \<Rightarrow> nat" where
  "digits_value ds = foldl (\<lambda>a c. 10 * a + (of_char c - 48)) 0 ds"

definition parseInt :: "string \<Rightarrow> int option" where
  "parseInt s =
     (let S = skip_space s;
          sign = (case S of c # t \<Rightarrow> if c = CHR ''-'' then - 1 else 1 | [] \<Rightarrow> 1);
          S' = (case S of c # t \<Rightarrow> if c = CHR ''-'' \<or> c = CHR ''+'' then t else S | [] \<Rightarrow> S);
          Z = takeWhile is_digit S'
      in if Z = [] then None else Some (sign * int (digits_value Z)))"

text \<open>A text that ends the digits before it: it is empty or begins with no digit.\<close>

definition stops :: "string \<Rightarrow> bool" where
  "stops rest = (case rest of [] \<Rightarrow> True | c # cs \<Rightarrow> \<not> is_digit c)"


record Env =
  OPENAI_API_KEY :: string
  SIGNING_SECRET :: "string option"
  CACHE_RETENTION_DAYS :: "string option"

text \<open>
  The test \<^verbatim>\<open>entry.cached_at < cutoffTime\<close>, false when the cutoff is NaN, and the loop
  over the listed entries: each entry that passes the test is deleted from the storage
  and counted.
\<close>

definition expired :: "int option \<Rightarrow> CachedEntry \<Rightarrow> bool" where
  "expired cutoff entry = (case cutoff of None \<Rightarrow> False | Some c \<Rightarrow> cached_at entry < c)"

fun sweep ::
  "int option \<Rightarrow> (string \<times> CachedEntry) list \<Rightarrow> (string \<times> CachedEntry) list \<Rightarrow> nat \<Rightarrow>
     (string \<times> CachedEntry) list \<times> nat" where
  "sweep cutoff [] store deleted = (store, deleted)"
| "sweep cutoff ((key, entry) # entries) store deleted =
     (if expired cutoff entry
      then sweep cutoff entries (AList.delete key store) (deleted + 1)
      else sweep cutoff entries store deleted)"

definition retentionDays :: "Env \<Rightarrow> int option" where
  "retentionDays env =
     parseInt (case CACHE_RETENTION_DAYS env of
                 None \<Rightarrow> ''90''
               | Some s \<Rightarrow> if s = [] then ''90'' else s)"

definition cutoffTime :: "Env \<Rightarrow> int \<Rightarrow> int option" where
  "cutoffTime env now =
     (case retentionDays env of
        None \<Rightarrow> None
      | Some d \<Rightarrow> Some (now - d * 24 * 60 * 60 * 1000))"

definition cleanupExpiredEntries :: "Env \<Rightarrow> int \<Rightarrow> do_state \<Rightarrow> nat \<times> do_state" where
  "cleanupExpiredEntries env now st =
     (let entries = storage st;
          (store, deleted) = sweep (cutoffTime env now) entries (storage st) 0
      in (deleted, st\<lparr>storage := store\<rparr>))"

section \<open>HTTP\<close>

text \<open>
  A response is its status and its body; a JSON body is the value handed to
  \<^verbatim>\<open>JSON.stringify\<close>. The headers (content type, CORS) are left out. A request is its
  path, its method and what \<^verbatim>\<open>request.json()\<close> gives: a value, or the error thrown on a
  body that is not JSON.
\<close>

datatype body = NoBody | Text string | Json jsval

record response =
  status :: nat
  body :: body

record request =
  pathname :: string
  http_method :: string
  json :: "js_error + jsval"

definition ok :: "response \<Rightarrow> bool" where
  "ok r = (200 \<le> status r \<and> status r \<le> 299)"

text \<open>
  Reading one of the properties the code names (\<^verbatim>\<open>model\<close>, \<^verbatim>\<open>content\<close>, ...) from a
  value that is neither null nor undefined: an object gives the property or undefined,
  any other value gives undefined.
\<close>

fun get_prop :: "jsval \<Rightarrow> string \<Rightarrow> jsval" where
  "get_prop (JObj fs) name = (case map_of fs name of Some v \<Rightarrow> v | None \<Rightarrow> JUndefined)"
| "get_prop v name = JUndefined"

definition as_request :: "jsval \<Rightarrow> js_error + GatewayRequest" where
  "as_request v =
     (if nullish v then Inl (TypeError ''Cannot read properties of null'')
      else Inr \<lparr>model = get_prop v ''model'',
                prompt = get_prop v ''prompt'',
                seed = get_prop v ''seed'',
                temperature = get_prop v ''temperature'',
                max_tokens = get_prop v ''max_tokens'',
                system_prompt = get_prop v ''system_prompt''\<rparr>)"

text \<open>
  \<^verbatim>\<open>JSON.parse(JSON.stringify(v))\<close> for a value inside an object or an array: a number
  that is not finite becomes null, an undefined element of an array becomes null, and
  an undefined property is dropped.
\<close>

fun wire :: "jsval \<Rightarrow> jsval" where
  "wire (JNum n) = (case n of Fin r \<Rightarrow> JNum n | _ \<Rightarrow> JNull)"
| "wire (JArr xs) = JArr (map (\<lambda>x. if x = JUndefined then JNull else wire x) xs)"
| "wire (JObj fs) =
     JObj (map (\<lambda>kv. (fst kv, wire (snd kv))) (filter (\<lambda>kv. snd kv \<noteq> JUndefined) fs))"
| "wire v = v"

definition error_text :: "js_error \<Rightarrow> string" where
  "error_text e = (if message e = [] then ''Internal server error'' else message e)"

definition entry_json :: "CachedEntry \<Rightarrow> bool \<Rightarrow> jsval" where
  "entry_json e c =
     JObj [(''content'', JStr (content e)),
           (''model'', entry_model e),
           (''seed'', entry_seed e),
           (''request_hash'', JStr (request_hash e)),
           (''cached_at'', JNum (Fin (of_int (cached_at e)))),
           (''last_accessed'', JNum (Fin (of_int (last_accessed e)))),
           (''hit_count'', JNum (Fin (of_int (hit_count e)))),
           (''cached'', JBool c)]"

subsection \<open>AICacheDurableObject.fetch\<close>

definition do_fetch ::
  "host \<Rightarrow> Env \<Rightarrow> (OpenAIRequest \<Rightarrow> upstream_reply) \<Rightarrow> int \<Rightarrow> request \<Rightarrow> do_state \<Rightarrow>
     response \<times> do_state" where
  "do_fetch h env openai now request st =
     (if pathname request = ''/health'' then
        (\<lparr>status = 200, body = Json (JObj [(''status'', JStr ''ok'')])\<rparr>, st)
      else if pathname request = ''/generate'' \<and> http_method request = ''POST'' then
        (case (case json request of Inl e \<Rightarrow> Inl e | Inr v \<Rightarrow> as_request v) of
           Inl e \<Rightarrow>
             (\<lparr>status = 500,
               body = Json (JObj [(''error'', JStr (error_text e)),
                                  (''code'', JStr ''DURABLE_OBJECT_ERROR'')])\<rparr>, st)
         | Inr gatewayReq \<Rightarrow>
             (case getOrGenerateResponse h openai now gatewayReq st of
                (Inl e, st') \<Rightarrow>
                  (\<lparr>status = 500,
                    body = Json (JObj [(''error'', JStr (error_text e)),
                                       (''code'', JStr ''DURABLE_OBJECT_ERROR'')])\<rparr>, st')
              | (Inr (result, c), st') \<Rightarrow>
                  (\<lparr>status = 200, body = Json (entry_json result c)\<rparr>, st')))
      else if pathname request = ''/cleanup'' \<and> http_method request = ''POST'' then
        (let (deleted, st') = cleanupExpiredEntries env now st in
         (\<lparr>status = 200,
           body = Json (JObj [(''deleted'', JNum (Fin (of_nat deleted))),
                              (''status'', JStr ''ok'')])\<rparr>, st'))
      else (\<lparr>status = 404, body = Text ''Not found''\<rparr>, st))"

section \<open>The worker (the front door)\<close>

text \<open>
  The coordinators by name, \<^verbatim>\<open>env.AI_CACHE.idFromName(name)\<close>, and the keys the worker
  itself has derived (a record of what ran, not a part of the program's state).
\<close>

record world =
  objects :: "string \<Rightarrow> do_state"
  worker_digests :: "string list"

text \<open>
  The body of the \<^verbatim>\<open>try\<close> block of the route \<^verbatim>\<open>/generate\<close>. A request whose key cannot
  be derived throws before a coordinator is reached. \<^verbatim>\<open>generateSignature\<close> is handed two
  properties of the coordinator's answer, whatever they are; it imports the key before
  it builds the text to sign from them, so a rejected key is thrown first.
\<close>

definition generate ::
  "host \<Rightarrow> Env \<Rightarrow> (OpenAIRequest \<Rightarrow> upstream_reply) \<Rightarrow> int \<Rightarrow> request \<Rightarrow> world \<Rightarrow>
     (js_error + response) \<times> world" where
  "generate h env openai now request w =
     (case json request of
        Inl e \<Rightarrow> (Inl e, w)
      | Inr v \<Rightarrow>
          (case as_request v of
             Inl e \<Rightarrow> (Inl e, w)
           | Inr gatewayReq \<Rightarrow>
               (let validation = validateRequest gatewayReq in
                if \<not> valid validation then
                  (Inr \<lparr>status = 400,
                        body = Json (JObj [(''error'',
                                            JStr (case error validation of
                                                    None \<Rightarrow> ''Invalid request''
                                                  | Some m \<Rightarrow> if m = [] then ''Invalid request'' else m)),
                                           (''code'', JStr ''VALIDATION_ERROR'')])\<rparr>, w)
                else
                  (case generateCacheKey h gatewayReq of
                     Inl e \<Rightarrow> (Inl e, w)
                   | Inr cacheKey \<Rightarrow>
                       (let w1 = w\<lparr>worker_digests := worker_digests w @ [cacheKey]\<rparr>;
                            (doResponse, st') =
                               do_fetch h env openai now
                                 \<lparr>pathname = pathname request, http_method = ''POST'',
                                  json = Inr (wire v)\<rparr>
                                 (objects w1 cacheKey);
                            w2 = w1\<lparr>objects := (objects w1)(cacheKey := st')\<rparr>
                        in if \<not> ok doResponse then
                             (Inr \<lparr>status = status doResponse, body = body doResponse\<rparr>, w2)
                           else
                             (case body doResponse of
                                Json j \<Rightarrow>
                                  (let cachedEntry = wire j in
                                   case and_then
                                          (importKey (encode (case SIGNING_SECRET env of
                                                                None \<Rightarrow> []
                                                              | Some s \<Rightarrow> s)))
                                          (\<lambda>key.
                                             and_then
                                               (to_string (number_str h) (get_prop cachedEntry ''request_hash''))
                                               (\<lambda>requestHash.
                                                  and_then
                                                    (to_string (number_str h) (get_prop cachedEntry ''content''))
                                                    (\<lambda>content.
                                                       generateSignature h requestHash content
                                                         (SIGNING_SECRET env)))) of
                                     Inl e \<Rightarrow> (Inl e, w2)
                                   | Inr signature \<Rightarrow>
                                       (Inr \<lparr>status = 200,
                                             body = Json (JObj [(''content'', get_prop cachedEntry ''content''),
                                                                (''model'', get_prop cachedEntry ''model''),
                                                                (''seed'', get_prop cachedEntry ''seed''),
                                                                (''signature'', JStr signature),
                                                                (''cached'', get_prop cachedEntry ''cached''),
                                                                (''request_hash'', get_prop cachedEntry ''request_hash'')])\<rparr>,
                                        w2))
                              | _ \<Rightarrow> (Inl (SyntaxError ''Unexpected end of JSON input''), w2)))))))"

text \<open>
  The \<^verbatim>\<open>fetch\<close> handler of the worker. \<open>stack\<close> is the host's text for
  \<^verbatim>\<open>error.stack\<close>.
\<close>

definition worker_fetch ::
  "host \<Rightarrow> (js_error \<Rightarrow> string) \<Rightarrow> Env \<Rightarrow> (OpenAIRequest \<Rightarrow> upstream_reply) \<Rightarrow> int \<Rightarrow>
     request \<Rightarrow> world \<Rightarrow> response \<times> world" where
  "worker_fetch h stack env openai now request w =
     (if http_method request = ''OPTIONS'' then (\<lparr>status = 200, body = NoBody\<rparr>, w)
      else if pathname request = ''/health'' \<and> http_method request = ''GET'' then
        (\<lparr>status = 200,
          body = Json (JObj [(''status'', JStr ''ok''),
                             (''service'', JStr ''icp-deterministic-ai-gateway''),
                             (''version'', JStr ''1.0.0'')])\<rparr>, w)
      else if pathname request = ''/generate'' \<and> http_method request = ''POST'' then
        (case generate h env openai now request w of
           (Inr r, w') \<Rightarrow> (r, w')
         | (Inl e, w') \<Rightarrow>
             (\<lparr>status = 500,
               body = Json (JObj [(''error'', JStr (error_text e)),
                                  (''code'', JStr ''WORKER_ERROR''),
                                  (''details'', JStr (stack e))])\<rparr>, w'))
      else if pathname request = ''/cleanup'' \<and> http_method request = ''POST'' then
        (\<lparr>status = 200,
          body = Json (JObj [(''status'', JStr ''ok''),
                             (''message'',
                              JStr ''Cleanup endpoint - implement cron trigger for automatic cleanup'')])\<rparr>,
         w)
      else (\<lparr>status = 404, body = Text ''Not found''\<rparr>, w))"

text \<open>The \<^verbatim>\<open>scheduled\<close> handler writes two lines to the log and nothing else.\<close>

definition scheduled :: "world \<Rightarrow> world" where
  "scheduled w = w"

section \<open>Callers of one coordinator, interleaved\<close>

text \<open>
  A coordinator runs one piece of JavaScript at a time, and a caller of
  \<^verbatim>\<open>getOrGenerateResponse\<close> gives way only at an \<^verbatim>\<open>await\<close>. While a storage operation is
  awaited a Durable Object takes no other event (its input gate), so a caller runs in
  one piece from the reading of the storage to its return on a hit, or to the \<^verbatim>\<open>await\<close>
  of a promise: of the pending one, or of the one it has made and registered after
  \<^verbatim>\<open>callOpenAI\<close> has issued the \<^verbatim>\<open>fetch\<close>. That piece is the event \<open>Arrive\<close>. The other
  event, \<open>Settle\<close>, is the reply of the upstream to the generation in flight:
  \<^verbatim>\<open>generateAndCache\<close> stores the entry if the reply has a content, its promise settles,
  and the callers that await it resume in the order in which they began to wait, the
  initiator first, who deletes the registration. A caller that arrives between the
  reply and the write of the entry finds the storage empty and the promise registered,
  as one that arrives before the reply does. Each event carries its reading of the
  clock.

  \<open>in_flight\<close> is \<^verbatim>\<open>pendingRequests\<close> with the promises not yet settled: under a key, the
  request being generated and the callers that await the promise. \<open>sent\<close> lists the
  requests sent upstream and \<open>returned\<close> the callers that have returned, each with its
  result, oldest first.
\<close>

type_synonym outcome = "js_error + CachedEntry \<times> bool"

record coordinator =
  stored :: "(string \<times> CachedEntry) list"
  in_flight :: "string \<rightharpoonup> GatewayRequest \<times> nat list"
  sent :: "OpenAIRequest list"
  returned :: "(nat \<times> outcome) list"

datatype event = Arrive nat int | Settle upstream_reply int

definition arrive :: "host \<Rightarrow> GatewayRequest \<Rightarrow> nat \<Rightarrow> int \<Rightarrow> coordinator \<Rightarrow> coordinator" where
  "arrive h req caller now s =
     (case generateCacheKey h req of
        Inl e \<Rightarrow> s\<lparr>returned := returned s @ [(caller, Inl e)]\<rparr>
      | Inr cacheKey \<Rightarrow>
          (case map_of (stored s) cacheKey of
             Some cached \<Rightarrow>
               (let cached' = cached\<lparr>last_accessed := now,
                                      hit_count := (if hit_count cached = 0 then 0 else hit_count cached) + 1\<rparr>
                in s\<lparr>stored := AList.update cacheKey cached' (stored s),
                     returned := returned s @ [(caller, Inr (cached', True))]\<rparr>)
           | None \<Rightarrow>
               (case in_flight s cacheKey of
                  Some (r, waiters) \<Rightarrow>
                    s\<lparr>in_flight := (in_flight s)(cacheKey \<mapsto> (r, waiters @ [caller]))\<rparr>
                | None \<Rightarrow>
                    s\<lparr>sent := sent s @ [openaiRequest req],
                      in_flight := (in_flight s)(cacheKey \<mapsto> (req, [caller]))\<rparr>)))"

definition settle :: "string \<Rightarrow> upstream_reply \<Rightarrow> int \<Rightarrow> coordinator \<Rightarrow> coordinator" where
  "settle cacheKey reply now s =
     (case in_flight s cacheKey of
        None \<Rightarrow> s
      | Some (req, waiters) \<Rightarrow>
          (case reply_content reply of
             Inl e \<Rightarrow>
               s\<lparr>in_flight := (in_flight s)(cacheKey := None),
                 returned := returned s @ map (\<lambda>caller. (caller, Inl e)) waiters\<rparr>
           | Inr c \<Rightarrow>
               (let entry = new_entry c req cacheKey now in
                s\<lparr>stored := AList.update cacheKey entry (stored s),
                  in_flight := (in_flight s)(cacheKey := None),
                  returned := returned s @
                    (case waiters of
                       [] \<Rightarrow> []
                     | initiator # joined \<Rightarrow>
                         (initiator, Inr (entry, False)) #
                         map (\<lambda>caller. (caller, Inr (entry, True))) joined)\<rparr>)))"

text \<open>The callers all make the request \<open>req\<close>; the replies are for its key.\<close>

fun step :: "host \<Rightarrow> GatewayRequest \<Rightarrow> event \<Rightarrow> coordinator \<Rightarrow> coordinator" where
  "step h req (Arrive caller now) s = arrive h req caller now s"
| "step h req (Settle reply now) s =
     (case generateCacheKey h req of
        Inl e \<Rightarrow> s
      | Inr cacheKey \<Rightarrow> settle cacheKey reply now s)"

fun run :: "host \<Rightarrow> GatewayRequest \<Rightarrow> event list \<Rightarrow> coordinator \<Rightarrow> coordinator" where
  "run h req [] s = s"
| "run h req (ev # events) s = run h req events (step h req ev s)"



text \<open>
  The callers of a schedule in the order of their arrival; a schedule in which the
  upstream answers every generation with a content; a return with the content \<open>c\<close>; a
  return with the flag \<^verbatim>\<open>cached\<close> not set.
\<close>

fun arrivals :: "event list \<Rightarrow> nat list" where
  "arrivals [] = []"
| "arrivals (Arrive caller now # events) = caller # arrivals events"
| "arrivals (Settle reply now # events) = arrivals events"

fun answered :: "event \<Rightarrow> bool" where
  "answered (Arrive caller now) = True"
| "answered (Settle reply now) = (case reply_content reply of Inl e \<Rightarrow> False | Inr c \<Rightarrow> True)"

definition received :: "string \<Rightarrow> nat \<times> outcome \<Rightarrow> bool" where
  "received c x = (case snd x of Inl e \<Rightarrow> False | Inr (entry, cached) \<Rightarrow> content entry = c)"

definition generated :: "nat \<times> outcome \<Rightarrow> bool" where
  "generated x = (case snd x of Inl e \<Rightarrow> False | Inr (entry, cached) \<Rightarrow> \<not> cached)"

text \<open>
  What holds of the coordinator after the callers \<open>arrived\<close>, from a start with nothing
  stored or pending under the key and \<open>c0\<close> sent: nothing has happened; or the
  generation is in flight, all callers wait and none has returned; or the entry is
  stored, all callers have returned its content, and one of them generated it.
\<close>

definition flight_inv ::
  "string \<Rightarrow> GatewayRequest \<Rightarrow> OpenAIRequest list \<Rightarrow> nat list \<Rightarrow> coordinator \<Rightarrow> bool" where
  "flight_inv k req c0 arrived s =
     (case map_of (stored s) k of
        None \<Rightarrow>
          returned s = [] \<and>
          (case in_flight s k of
             None \<Rightarrow> arrived = [] \<and> sent s = c0
           | Some (r, waiters) \<Rightarrow>
               r = req \<and> waiters = arrived \<and> arrived \<noteq> [] \<and> sent s = c0 @ [openaiRequest req])
      | Some e \<Rightarrow>
          in_flight s k = None \<and> sent s = c0 @ [openaiRequest req] \<and>
          map fst (returned s) = arrived \<and> arrived \<noteq> [] \<and>
          list_all (received (content e)) (returned s) \<and>
          length (filter generated (returned s)) = 1)"

text \<open>The coordinator with nothing stored, nothing in flight, nothing sent or returned.\<close>

definition idle :: coordinator where
  "idle = \<lparr>stored = [], in_flight = (\<lambda>key. None), sent = [], returned = []\<rparr>"

section \<open>Values for the instances\<close>

text \<open>
  A host whose digest returns its input and whose tag is the key followed by the data;
  the coordinator as its constructor leaves it; the request of the specification's
  scenario; an upstream that answers with one choice, and one that is down.
\<close>

definition sample_host :: host where
  "sample_host = \<lparr>sha256 = (\<lambda>bs. bs), hmac_sha256 = (\<lambda>key bs. key @ bs), number_str = (\<lambda>r. [])\<rparr>"

definition created :: do_state where
  "created = \<lparr>storage = [], pendingRequests = (\<lambda>key. None), upstream_calls = [], digests = []\<rparr>"

definition spec_request :: GatewayRequest where
  "spec_request =
     \<lparr>model = JStr ''m'', prompt = JStr ''p'', seed = JNum (Fin 12345),
      temperature = JNum (Fin 0), max_tokens = JUndefined, system_prompt = JUndefined\<rparr>"

definition answering :: "OpenAIRequest \<Rightarrow> upstream_reply" where
  "answering rq = Ok \<lparr>choices = Some [Choice (Some (Message ''assistant'' (JStr ''hello'')))]\<rparr>"

definition down :: "OpenAIRequest \<Rightarrow> upstream_reply" where
  "down rq = NotOk 503 ''down''"

definition no_env :: Env where
  "no_env = \<lparr>OPENAI_API_KEY = ''sk'', SIGNING_SECRET = None, CACHE_RETENTION_DAYS = None\<rparr>"

section \<open>Decimal digits\<close>

lemma dec_nat_small [simp]: "n < 10 \<Longrightarrow> dec_nat n = [digit_char n]"
  by (simp add: dec_nat.simps)

lemma dec_nat_big [simp]:
  "\<not> n < 10 \<Longrightarrow> dec_nat n = dec_nat (n div 10) @ [digit_char (n mod 10)]"
  by (subst dec_nat.simps) simp

lemma digit_char_code: "d < 10 \<Longrightarrow> of_char (digit_char d) = (48::nat) + d"
proof -
  assume "d < 10"
  then have "d \<in> {0, 1, 2, 3, 4, 5, 6, 7, 8, 9}" by auto
  then show ?thesis by (auto simp: digit_char_def)
qed

lemma is_digit_digit_char: "d < 10 \<Longrightarrow> is_digit (digit_char d)"
  by (simp add: is_digit_def digit_char_code)

lemma digits_value_snoc: "digits_value (ds @ [c]) = 10 * digits_value ds + (of_char c - 48)"
  by (simp add: digits_value_def)

text \<open>Reading the digits back gives the number: printing loses nothing.\<close>

lemma digits_value_dec_nat: "digits_value (dec_nat n) = n"
proof (induction n rule: dec_nat.induct)
  case (1 n)
  show ?case
  proof (cases "n < 10")
    case True
    then show ?thesis by (simp add: digits_value_def digit_char_code)
  next
    case False
    then have "digits_value (dec_nat n) =
        10 * digits_value (dec_nat (n div 10)) + (of_char (digit_char (n mod 10)) - 48)"
      by (simp add: digits_value_snoc)
    then show ?thesis using 1 False by (simp add: digit_char_code)
  qed
qed

lemma dec_nat_digits: "c \<in> set (dec_nat n) \<Longrightarrow> is_digit c"
proof (induction n rule: dec_nat.induct)
  case (1 n)
  show ?case
  proof (cases "n < 10")
    case True
    then show ?thesis using "1.prems" by (auto simp: is_digit_digit_char)
  next
    case False
    then have "c \<in> set (dec_nat (n div 10)) \<or> c = digit_char (n mod 10)"
      using "1.prems" by auto
    then show ?thesis using 1 False by (auto simp: is_digit_digit_char)
  qed
qed






section \<open>Bytes and their hexadecimal digits\<close>

lemma unat_of_char: "unat (of_char c :: byte) = of_char c"
proof -
  have "unat (of_nat (of_char c) :: byte) = of_char c mod 256"
    by (simp add: unat_of_nat)
  then show ?thesis
    using nat_of_char_less_256 [of c] by (simp add: of_nat_of_char)
qed








section \<open>The cache key\<close>

lemma and_then_Inr [simp]: "and_then (Inr y) f = f y"
  by (simp add: and_then_def)

lemma and_then_Inl [simp]: "and_then (Inl e) f = Inl e"
  by (simp add: and_then_def)













section \<open>Validation\<close>

lemma validateRequest_valid_iff:
  "valid (validateRequest req) \<longleftrightarrow>
     (\<exists>m. model req = JStr m \<and> m \<noteq> []) \<and> (\<exists>p. prompt req = JStr p \<and> p \<noteq> []) \<and>
     (\<exists>n. seed req = JNum n) \<and>
     (nullish (temperature req) \<or> temperature req = JNum (Fin 0))"
  by (cases "model req"; cases "prompt req"; cases "seed req")
     (auto simp: validateRequest_def coalesce_def)

lemma validateRequest_error:
  "\<not> valid (validateRequest req) \<Longrightarrow> \<exists>m. error (validateRequest req) = Some m \<and> m \<noteq> []"
  by (simp add: validateRequest_def split: if_splits)

lemma generate_invalid:
  assumes "json request = Inr v" and "as_request v = Inr req" and "\<not> valid (validateRequest req)"
  shows "\<exists>m. generate h env openai now request w =
     (Inr \<lparr>status = 400,
           body = Json (JObj [(''error'', JStr m), (''code'', JStr ''VALIDATION_ERROR'')])\<rparr>, w)"
proof -
  obtain m where "error (validateRequest req) = Some m" and "m \<noteq> []"
    using validateRequest_error [OF assms(3)] by blast
  then show ?thesis using assms
    by (simp add: generate_def Let_def)
qed

text \<open>
  C6. \<^verbatim>\<open>validateRequest\<close> rejects a request exactly when its model is not a non-empty
  string, or its prompt is not one, or its seed is not a number, or its temperature is
  given and is not the number 0. A temperature is given when it is neither undefined nor
  null, the two values that \<^verbatim>\<open>??\<close> replaces by 0. The worker answers a rejected request
  to \<^verbatim>\<open>POST /generate\<close> with status 400 and the code \<^verbatim>\<open>VALIDATION_ERROR\<close>, and returns
  the world as it was: the worker has derived no key, and no coordinator was reached, so
  nothing was sent upstream.
\<close>

theorem validation_rejection:
  "(\<not> valid (validateRequest req)) =
     ((\<nexists>m. model req = JStr m \<and> m \<noteq> []) \<or> (\<nexists>p. prompt req = JStr p \<and> p \<noteq> []) \<or>
      (\<nexists>n. seed req = JNum n) \<or>
      (\<not> nullish (temperature req) \<and> temperature req \<noteq> JNum (Fin 0))) \<and>
   (\<not> valid (validateRequest req) \<and> json request = Inr v \<and> as_request v = Inr req \<and>
    pathname request = ''/generate'' \<and> http_method request = ''POST'' \<longrightarrow>
      (\<exists>m. worker_fetch h stack env openai now request w =
         (\<lparr>status = 400,
           body = Json (JObj [(''error'', JStr m), (''code'', JStr ''VALIDATION_ERROR'')])\<rparr>, w)))"
proof (intro conjI impI)
  show "(\<not> valid (validateRequest req)) =
     ((\<nexists>m. model req = JStr m \<and> m \<noteq> []) \<or> (\<nexists>p. prompt req = JStr p \<and> p \<noteq> []) \<or>
      (\<nexists>n. seed req = JNum n) \<or>
      (\<not> nullish (temperature req) \<and> temperature req \<noteq> JNum (Fin 0)))"
    unfolding validateRequest_valid_iff by blast
next
  assume a: "\<not> valid (validateRequest req) \<and> json request = Inr v \<and> as_request v = Inr req \<and>
    pathname request = ''/generate'' \<and> http_method request = ''POST''"
  then obtain m where "generate h env openai now request w =
     (Inr \<lparr>status = 400,
           body = Json (JObj [(''error'', JStr m), (''code'', JStr ''VALIDATION_ERROR'')])\<rparr>, w)"
    using generate_invalid [of request v req h env openai now w] by blast
  then show "\<exists>m. worker_fetch h stack env openai now request w =
         (\<lparr>status = 400,
           body = Json (JObj [(''error'', JStr m), (''code'', JStr ''VALIDATION_ERROR'')])\<rparr>, w)"
    using a by (simp add: worker_fetch_def)
qed

text \<open>The scenario's request with the temperature 0.7, posted to the worker.\<close>

theorem validation_rejection_witness:
  "\<not> valid (validateRequest (spec_request\<lparr>temperature := JNum (Fin (7 / 10))\<rparr>)) \<and>
   as_request (JObj [(''model'', JStr ''m''), (''prompt'', JStr ''p''), (''seed'', JNum (Fin 12345)),
                     (''temperature'', JNum (Fin (7 / 10)))]) =
     Inr (spec_request\<lparr>temperature := JNum (Fin (7 / 10))\<rparr>) \<and>
   (\<exists>m. worker_fetch sample_host (\<lambda>e. []) no_env answering 0
          \<lparr>pathname = ''/generate'', http_method = ''POST'',
           json = Inr (JObj [(''model'', JStr ''m''), (''prompt'', JStr ''p''),
                             (''seed'', JNum (Fin 12345)),
                             (''temperature'', JNum (Fin (7 / 10)))])\<rparr>
          \<lparr>objects = (\<lambda>name. created), worker_digests = []\<rparr> =
        (\<lparr>status = 400,
          body = Json (JObj [(''error'', JStr m), (''code'', JStr ''VALIDATION_ERROR'')])\<rparr>,
         \<lparr>objects = (\<lambda>name. created), worker_digests = []\<rparr>))"
  using validation_rejection [of "spec_request\<lparr>temperature := JNum (Fin (7 / 10))\<rparr>"
      "\<lparr>pathname = ''/generate'', http_method = ''POST'',
        json = Inr (JObj [(''model'', JStr ''m''), (''prompt'', JStr ''p''),
                          (''seed'', JNum (Fin 12345)),
                          (''temperature'', JNum (Fin (7 / 10)))])\<rparr>"
      "JObj [(''model'', JStr ''m''), (''prompt'', JStr ''p''), (''seed'', JNum (Fin 12345)),
             (''temperature'', JNum (Fin (7 / 10)))]"
      sample_host "\<lambda>e. []" no_env answering 0 "\<lparr>objects = (\<lambda>name. created), worker_digests = []\<rparr>"]
  by (simp add: validateRequest_def as_request_def spec_request_def coalesce_def)

section \<open>What is hashed and what is sent\<close>

lemma spec_key: "generateCacheKey sample_host spec_request = Inr ''6d3a703a3a303a31323334353a313530''"
  by (simp add: generateCacheKey_def keyString_def spec_request_def sample_host_def coalesce_def
      dec_int_def digit_char_def encode_def hex_def byte_hex_def unat_of_char)

text \<open>
  C10. For a request whose system prompt is absent (undefined or null) or the empty
  string, \<^verbatim>\<open>callOpenAI\<close> sends the system message \<^verbatim>\<open>You are a helpful assistant.\<close>, while
  \<^verbatim>\<open>generateCacheKey\<close> derives the key it derives for the same request with the empty
  string as its system prompt: when the other five fields print as \<open>m\<close>, \<open>p\<close>, \<open>t\<close>, \<open>sd\<close>
  and \<open>mt\<close>, the text that is hashed has the empty string in the place of the system
  prompt, and the key is the hexadecimal digits of the digest of that text.
\<close>

theorem default_divergence:
  assumes "nullish (system_prompt req) \<or> system_prompt req = JStr []"
  shows "(\<exists>r st' rq. callOpenAI openai req st = (r, st') \<and>
            upstream_calls st' = upstream_calls st @ [rq] \<and>
            messages rq = [(''system'', JStr ''You are a helpful assistant.''), (''user'', prompt req)]) \<and>
         generateCacheKey h req = generateCacheKey h (req\<lparr>system_prompt := JStr []\<rparr>) \<and>
         (to_string (number_str h) (model req) = Inr m \<and>
          to_string (number_str h) (prompt req) = Inr p \<and>
          to_string (number_str h) (coalesce (temperature req) (JNum (Fin 0))) = Inr t \<and>
          to_string (number_str h) (seed req) = Inr sd \<and>
          to_string (number_str h) (coalesce (max_tokens req) (JNum (Fin 150))) = Inr mt \<longrightarrow>
            keyString h req =
              Inr (m @ '':'' @ p @ '':'' @ [] @ '':'' @ t @ '':'' @ sd @ '':'' @ mt) \<and>
            generateCacheKey h req =
              Inr (hex (sha256 h (encode
                (m @ '':'' @ p @ '':'' @ [] @ '':'' @ t @ '':'' @ sd @ '':'' @ mt)))))"
proof -
  have o: "or_else (system_prompt req) (JStr ''You are a helpful assistant.'') =
      JStr ''You are a helpful assistant.''"
    using assms by (cases "system_prompt req") (auto simp: or_else_def)
  have c: "coalesce (system_prompt req) (JStr []) = JStr []"
    using assms by (auto simp: coalesce_def)
  have "messages (openaiRequest req) =
      [(''system'', JStr ''You are a helpful assistant.''), (''user'', prompt req)]"
    by (simp add: openaiRequest_def Let_def o)
  moreover have "upstream_calls (snd (callOpenAI openai req st)) = upstream_calls st @ [openaiRequest req]"
    by (simp add: callOpenAI_def Let_def)
  ultimately have sent: "\<exists>r st' rq. callOpenAI openai req st = (r, st') \<and>
            upstream_calls st' = upstream_calls st @ [rq] \<and>
            messages rq = [(''system'', JStr ''You are a helpful assistant.''), (''user'', prompt req)]"
    by (metis prod.collapse)
  have c': "coalesce (JStr []) (JStr []) = JStr []"
    by (simp add: coalesce_def)
  have "keyString h req = keyString h (req\<lparr>system_prompt := JStr []\<rparr>)"
    by (simp add: keyString_def Let_def c c')
  then have same: "generateCacheKey h req = generateCacheKey h (req\<lparr>system_prompt := JStr []\<rparr>)"
    by (simp add: generateCacheKey_def)
  have hashed: "keyString h req =
              Inr (m @ '':'' @ p @ '':'' @ [] @ '':'' @ t @ '':'' @ sd @ '':'' @ mt) \<and>
            generateCacheKey h req =
              Inr (hex (sha256 h (encode
                (m @ '':'' @ p @ '':'' @ [] @ '':'' @ t @ '':'' @ sd @ '':'' @ mt))))"
    if "to_string (number_str h) (model req) = Inr m \<and>
          to_string (number_str h) (prompt req) = Inr p \<and>
          to_string (number_str h) (coalesce (temperature req) (JNum (Fin 0))) = Inr t \<and>
          to_string (number_str h) (seed req) = Inr sd \<and>
          to_string (number_str h) (coalesce (max_tokens req) (JNum (Fin 150))) = Inr mt"
    using that by (simp add: generateCacheKey_def keyString_def Let_def c)
  show ?thesis using sent same hashed by blast
qed

text \<open>
  The scenario's request has no system prompt: the text hashed for it is
  \<^verbatim>\<open>m:p::0:12345:150\<close>, and its key on the sample host, whose digest returns its input,
  is the hexadecimal digits of that text.
\<close>

theorem default_divergence_witness:
  "nullish (system_prompt spec_request) \<and>
   upstream_calls (snd (callOpenAI answering spec_request created)) =
     [\<lparr>oa_model = JStr ''m'',
       messages = [(''system'', JStr ''You are a helpful assistant.''), (''user'', JStr ''p'')],
       oa_temperature = JNum (Fin 0), oa_seed = JNum (Fin 12345),
       oa_max_tokens = JNum (Fin 150)\<rparr>] \<and>
   keyString sample_host spec_request = Inr ''m:p::0:12345:150'' \<and>
   generateCacheKey sample_host spec_request = Inr ''6d3a703a3a303a31323334353a313530'' \<and>
   generateCacheKey sample_host (spec_request\<lparr>system_prompt := JStr []\<rparr>) =
     Inr ''6d3a703a3a303a31323334353a313530''"
  using default_divergence [of spec_request answering created sample_host "''m''" "''p''" "''0''"
      "''12345''" "''150''"]
  by (simp add: spec_request_def created_def callOpenAI_def reply_content_def openaiRequest_def
      or_else_def answering_def extractContent_def coalesce_def dec_int_def digit_char_def
      sample_host_def encode_def hex_def byte_hex_def unat_of_char generateCacheKey_def
      keyString_def)

section \<open>The signer\<close>

lemma digit_char_hex: "d < 16 \<Longrightarrow> hex_digit (digit_char d)"
  unfolding digit_char_def hex_digit_def by (rule nth_mem) simp

lemma byte_hex_length: "length (byte_hex b) = 2"
  by (simp add: byte_hex_def Let_def)

lemma byte_hex_digits: "list_all hex_digit (byte_hex b)"
proof -
  have "unat b < 256" using unsigned_less [of b] by simp
  then have "unat b div 16 < 16" and "unat b mod 16 < 16" by simp_all
  moreover have "hex_digit (CHR ''0'')" by (simp add: hex_digit_def)
  ultimately show ?thesis
    by (simp add: byte_hex_def Let_def digit_char_hex)
qed

lemma hex_length: "length (hex bs) = 2 * length bs"
  by (induction bs) (simp_all add: hex_def byte_hex_length)

lemma hex_digits: "list_all hex_digit (hex bs)"
  by (induction bs) (simp_all add: hex_def byte_hex_digits)

lemma encode_empty: "(encode s = []) = (s = [])"
  by (simp add: encode_def)

text \<open>
  C8. \<^verbatim>\<open>generateSignature\<close> fails exactly when the secret is absent or empty, the key
  import of the host rejecting the empty key. For every other secret it returns the
  tag that the host's HMAC-SHA256 gives, under the bytes of the secret, for the bytes of
  the fingerprint, a colon and the content, written as two lower-case hexadecimal digits
  for each byte. The result is a function of the fingerprint, the content, the secret
  and the host's HMAC alone, so equal inputs give equal signatures.
\<close>

theorem signer_contract:
  "((\<exists>e. generateSignature h requestHash c secret = Inl e) = (secret = None \<or> secret = Some [])) \<and>
   (\<forall>s. secret = Some s \<and> s \<noteq> [] \<longrightarrow>
      generateSignature h requestHash c secret =
        Inr (hex (hmac_sha256 h (encode s) (encode (requestHash @ '':'' @ c)))) \<and>
      length (hex (hmac_sha256 h (encode s) (encode (requestHash @ '':'' @ c)))) =
        2 * length (hmac_sha256 h (encode s) (encode (requestHash @ '':'' @ c))) \<and>
      list_all hex_digit (hex (hmac_sha256 h (encode s) (encode (requestHash @ '':'' @ c)))))"
proof (cases secret)
  case None
  then show ?thesis by (simp add: generateSignature_def importKey_def encode_def)
next
  case (Some s)
  then show ?thesis
    by (simp add: generateSignature_def importKey_def encode_empty Let_def hex_length hex_digits)
qed

text \<open>The secret \<^verbatim>\<open>k\<close>, the fingerprint \<^verbatim>\<open>ab\<close> and the content \<^verbatim>\<open>c\<close>.\<close>

theorem signer_contract_witness:
  "generateSignature sample_host ''ab'' ''c'' (Some ''k'') = Inr ''6b61623a63'' \<and>
   (\<exists>e. generateSignature sample_host ''ab'' ''c'' (Some []) = Inl e)"
  using signer_contract [of sample_host "''ab''" "''c''" "Some ''k''"]
    signer_contract [of sample_host "''ab''" "''c''" "Some []"]
  by (simp add: sample_host_def encode_def hex_def byte_hex_def digit_char_def)

section \<open>One call to the coordinator\<close>

lemma callOpenAI_fst: "fst (callOpenAI openai req st) = fst (callOpenAI openai req st')"
  by (simp add: callOpenAI_def Let_def)

lemma callOpenAI_snd:
  "snd (callOpenAI openai req st) = st\<lparr>upstream_calls := upstream_calls st @ [openaiRequest req]\<rparr>"
  by (simp add: callOpenAI_def Let_def)

lemma callOpenAI_digests:
  "callOpenAI openai req (st\<lparr>digests := ds\<rparr>) =
     (fst (callOpenAI openai req st),
      st\<lparr>digests := ds, upstream_calls := upstream_calls st @ [openaiRequest req]\<rparr>)"
  by (simp add: callOpenAI_def Let_def)

text \<open>
  C4. Let \<open>key\<close> be the key derived for the request. When the storage holds an entry
  under the key, the call sends
  nothing upstream and leaves the pending table alone. It returns the entry with the
  flag \<^verbatim>\<open>cached\<close> set, its \<^verbatim>\<open>last_accessed\<close> set to now and its \<^verbatim>\<open>hit_count\<close> raised by
  one, every other field as it was, and stores that entry under the key; the other keys
  of the storage keep their entries.
\<close>

theorem cache_hit_frame:
  assumes "generateCacheKey h req = Inr key"
    and "map_of (storage st) key = Some e"
  shows "\<exists>e' st'. getOrGenerateResponse h openai now req st = (Inr (e', True), st') \<and>
     upstream_calls st' = upstream_calls st \<and>
     pendingRequests st' = pendingRequests st \<and>
     map_of (storage st') = (map_of (storage st))(key \<mapsto> e') \<and>
     e' = \<lparr>content = content e, entry_model = entry_model e, entry_seed = entry_seed e,
           request_hash = request_hash e, cached_at = cached_at e, last_accessed = now,
           hit_count = hit_count e + 1\<rparr>"
  using assms by (simp add: getOrGenerateResponse_def Let_def update_conv')

text \<open>An entry cached at time 7 and hit three times, read at time 1000.\<close>

theorem cache_hit_frame_witness:
  "fst (getOrGenerateResponse sample_host down 1000 spec_request
     (created\<lparr>storage :=
        [(''6d3a703a3a303a31323334353a313530'',
          \<lparr>content = ''hello'', entry_model = JStr ''m'', entry_seed = JNum (Fin 12345),
           request_hash = ''6d3a703a3a303a31323334353a313530'', cached_at = 7,
           last_accessed = 9, hit_count = 3\<rparr>)]\<rparr>)) =
   Inr (\<lparr>content = ''hello'', entry_model = JStr ''m'', entry_seed = JNum (Fin 12345),
         request_hash = ''6d3a703a3a303a31323334353a313530'', cached_at = 7,
         last_accessed = 1000, hit_count = 4\<rparr>, True)"
  using cache_hit_frame [where h = sample_host and req = spec_request
      and key = "''6d3a703a3a303a31323334353a313530''"
      and st = "created\<lparr>storage :=
        [(''6d3a703a3a303a31323334353a313530'',
          \<lparr>content = ''hello'', entry_model = JStr ''m'', entry_seed = JNum (Fin 12345),
           request_hash = ''6d3a703a3a303a31323334353a313530'', cached_at = 7,
           last_accessed = 9, hit_count = 3\<rparr>)]\<rparr>"
      and e = "\<lparr>content = ''hello'', entry_model = JStr ''m'', entry_seed = JNum (Fin 12345),
           request_hash = ''6d3a703a3a303a31323334353a313530'', cached_at = 7,
           last_accessed = 9, hit_count = 3\<rparr>" and openai = down and now = 1000]
  by (auto simp: spec_key)

text \<open>
  C5. Let \<open>key\<close> be the key derived for the request. When the storage holds no entry
  under the key, no generation is pending for it, and
  the upstream call succeeds with the content \<open>c\<close>, the caller sends one request
  upstream and gets, with the flag \<^verbatim>\<open>cached\<close> not set, the entry built from the content
  and the request, with \<^verbatim>\<open>cached_at\<close> and \<^verbatim>\<open>last_accessed\<close> both now and \<^verbatim>\<open>hit_count\<close> 0;
  the entry is stored under the key, and the pending table ends as it began.
\<close>

theorem fresh_generation:
  assumes "generateCacheKey h req = Inr key"
    and "map_of (storage st) key = None"
    and "pendingRequests st key = None"
    and "fst (callOpenAI openai req st) = Inr c"
  shows "\<exists>entry st'. getOrGenerateResponse h openai now req st = (Inr (entry, False), st') \<and>
     entry = \<lparr>content = c, entry_model = model req, entry_seed = seed req,
              request_hash = key, cached_at = now, last_accessed = now,
              hit_count = 0\<rparr> \<and>
     map_of (storage st') = (map_of (storage st))(key \<mapsto> entry) \<and>
     pendingRequests st' = pendingRequests st \<and>
     upstream_calls st' = upstream_calls st @ [openaiRequest req]"
  using assms
  by (simp add: getOrGenerateResponse_def generateAndCache_def new_entry_def Let_def update_conv' fun_upd_idem
      callOpenAI_digests)

theorem fresh_generation_witness:
  "getOrGenerateResponse sample_host answering 1000 spec_request created =
     (Inr (\<lparr>content = ''hello'', entry_model = JStr ''m'', entry_seed = JNum (Fin 12345),
            request_hash = ''6d3a703a3a303a31323334353a313530'', cached_at = 1000,
            last_accessed = 1000, hit_count = 0\<rparr>, False),
      \<lparr>storage =
         [(''6d3a703a3a303a31323334353a313530'',
           \<lparr>content = ''hello'', entry_model = JStr ''m'', entry_seed = JNum (Fin 12345),
            request_hash = ''6d3a703a3a303a31323334353a313530'', cached_at = 1000,
            last_accessed = 1000, hit_count = 0\<rparr>)],
       pendingRequests = (\<lambda>key. None),
       upstream_calls = [openaiRequest spec_request],
       digests = [''6d3a703a3a303a31323334353a313530'']\<rparr>)"
  using fresh_generation [where st = created and h = sample_host and req = spec_request
      and key = "''6d3a703a3a303a31323334353a313530''" and openai = answering and c = "''hello''"
      and now = 1000]
  by (auto simp: created_def callOpenAI_def reply_content_def answering_def extractContent_def
      spec_key spec_key [unfolded spec_request_def] spec_request_def getOrGenerateResponse_def
      generateAndCache_def new_entry_def Let_def)

lemma miss_initiator:
  assumes "generateCacheKey h req = Inr key"
    and "map_of (storage st) key = None"
    and "pendingRequests st key = None"
    and "fst (callOpenAI openai req st) = Inl e"
  shows "getOrGenerateResponse h openai now req st =
     (Inl e, st\<lparr>digests := digests st @ [key],
                 upstream_calls := upstream_calls st @ [openaiRequest req]\<rparr>)"
  using assms
  by (simp add: getOrGenerateResponse_def generateAndCache_def new_entry_def Let_def fun_upd_idem
      callOpenAI_digests)

lemma miss_upstream_calls:
  assumes "generateCacheKey h req = Inr key"
    and "map_of (storage st) key = None"
    and "pendingRequests st key = None"
  shows "upstream_calls (snd (getOrGenerateResponse h openai now req st)) =
     upstream_calls st @ [openaiRequest req]"
  using assms
  by (cases "fst (callOpenAI openai req st)")
     (simp_all add: getOrGenerateResponse_def generateAndCache_def new_entry_def Let_def callOpenAI_digests)

text \<open>
  C3. Let \<open>key\<close> be the key derived for the request, let the storage hold no entry
  under the key, and let the upstream call fail with
  the error \<open>e\<close>. The caller that finds no pending generation gets \<open>e\<close>; the storage is as
  it was, the pending table is as it was and so holds nothing under the key, one request
  went upstream, and the same request made again in the state that results sends a
  request upstream again, whatever the upstream then does. A caller that finds the
  rejected promise in the pending table gets \<open>e\<close> too, and changes neither the storage
  nor the pending table, and sends nothing upstream. Among interleaved callers, when the
  reply to a generation in flight fails with \<open>e\<close>, every caller that awaits the promise
  returns \<open>e\<close>, nothing is stored or sent, the registration is gone, and the next caller
  to arrive sends a request upstream.
\<close>

theorem failure_atomicity:
  assumes "generateCacheKey h req = Inr key"
    and "map_of (storage st) key = None"
    and "fst (callOpenAI openai req st) = Inl e"
  shows "(pendingRequests st key = None \<longrightarrow>
          (\<exists>st'. getOrGenerateResponse h openai now req st = (Inl e, st') \<and>
             storage st' = storage st \<and>
             pendingRequests st' = pendingRequests st \<and>
             upstream_calls st' = upstream_calls st @ [openaiRequest req] \<and>
             (\<forall>openai2 now2.
                upstream_calls (snd (getOrGenerateResponse h openai2 now2 req st')) =
                upstream_calls st' @ [openaiRequest req]))) \<and>
         (pendingRequests st key = Some (Inl e) \<longrightarrow>
          (\<exists>st'. getOrGenerateResponse h openai now req st = (Inl e, st') \<and>
             storage st' = storage st \<and>
             pendingRequests st' = pendingRequests st \<and>
             upstream_calls st' = upstream_calls st)) \<and>
         (map_of (stored s) key = None \<and>
          in_flight s key = Some (req, waiters) \<and>
          reply_content reply = Inl e \<longrightarrow>
            returned (settle key reply t s) =
              returned s @ map (\<lambda>caller. (caller, Inl e)) waiters \<and>
            stored (settle key reply t s) = stored s \<and>
            sent (settle key reply t s) = sent s \<and>
            in_flight (settle key reply t s) key = None \<and>
            sent (arrive h req caller t2 (settle key reply t s)) =
              sent s @ [openaiRequest req])"
proof -
  let ?st' = "st\<lparr>digests := digests st @ [key],
                 upstream_calls := upstream_calls st @ [openaiRequest req]\<rparr>"
  have initiator: "\<exists>st'. getOrGenerateResponse h openai now req st = (Inl e, st') \<and>
             storage st' = storage st \<and>
             pendingRequests st' = pendingRequests st \<and>
             upstream_calls st' = upstream_calls st @ [openaiRequest req] \<and>
             (\<forall>openai2 now2.
                upstream_calls (snd (getOrGenerateResponse h openai2 now2 req st')) =
                upstream_calls st' @ [openaiRequest req])"
    if p: "pendingRequests st key = None"
  proof -
    have r: "getOrGenerateResponse h openai now req st = (Inl e, ?st')"
      by (rule miss_initiator [OF assms(1,2) p assms(3)])
    have again: "upstream_calls (snd (getOrGenerateResponse h openai2 now2 req ?st')) =
        upstream_calls ?st' @ [openaiRequest req]" for openai2 now2
      by (rule miss_upstream_calls [OF assms(1)]) (use assms(2) p in simp_all)
    show ?thesis using r again by (intro exI [of _ ?st']) simp
  qed
  have waiter: "\<exists>st'. getOrGenerateResponse h openai now req st = (Inl e, st') \<and>
             storage st' = storage st \<and>
             pendingRequests st' = pendingRequests st \<and>
             upstream_calls st' = upstream_calls st"
    if "pendingRequests st key = Some (Inl e)"
    using that assms(1,2) by (simp add: getOrGenerateResponse_def Let_def)
  have interleaved: "returned (settle key reply t s) =
              returned s @ map (\<lambda>caller. (caller, Inl e)) waiters \<and>
            stored (settle key reply t s) = stored s \<and>
            sent (settle key reply t s) = sent s \<and>
            in_flight (settle key reply t s) key = None \<and>
            sent (arrive h req caller t2 (settle key reply t s)) =
              sent s @ [openaiRequest req]"
    if "map_of (stored s) key = None \<and>
          in_flight s key = Some (req, waiters) \<and>
          reply_content reply = Inl e"
    using that assms(1) by (simp add: settle_def arrive_def)
  show ?thesis using initiator waiter interleaved by blast
qed

text \<open>
  The upstream is down: the initiator in the coordinator as created, the same request
  made again with the upstream back, a waiter that finds the rejected promise, and two
  interleaved callers whose generation fails.
\<close>

theorem failure_atomicity_witness:
  "fst (callOpenAI down spec_request created) = Inl (Error ''OpenAI API error: 503 - down'') \<and>
   getOrGenerateResponse sample_host down 1000 spec_request created =
     (Inl (Error ''OpenAI API error: 503 - down''),
      created\<lparr>digests := [''6d3a703a3a303a31323334353a313530''],
              upstream_calls := [openaiRequest spec_request]\<rparr>) \<and>
   upstream_calls (snd (getOrGenerateResponse sample_host answering 2000 spec_request
     (created\<lparr>digests := [''6d3a703a3a303a31323334353a313530''],
              upstream_calls := [openaiRequest spec_request]\<rparr>))) =
     [openaiRequest spec_request, openaiRequest spec_request] \<and>
   getOrGenerateResponse sample_host down 1000 spec_request
     (created\<lparr>pendingRequests :=
        [''6d3a703a3a303a31323334353a313530'' \<mapsto>
           Inl (Error ''OpenAI API error: 503 - down'')]\<rparr>) =
     (Inl (Error ''OpenAI API error: 503 - down''),
      created\<lparr>pendingRequests :=
          [''6d3a703a3a303a31323334353a313530'' \<mapsto>
             Inl (Error ''OpenAI API error: 503 - down'')],
        digests := [''6d3a703a3a303a31323334353a313530'']\<rparr>) \<and>
   run sample_host spec_request
     [Arrive 1 10, Arrive 2 11, Settle (down (openaiRequest spec_request)) 20] idle =
     idle\<lparr>sent := [openaiRequest spec_request],
          returned := [(1, Inl (Error ''OpenAI API error: 503 - down'')),
                       (2, Inl (Error ''OpenAI API error: 503 - down''))]\<rparr> \<and>
   sent (run sample_host spec_request
     [Arrive 1 10, Arrive 2 11, Settle (down (openaiRequest spec_request)) 20, Arrive 3 30] idle) =
     [openaiRequest spec_request, openaiRequest spec_request]"
  using failure_atomicity [where st = created and h = sample_host and req = spec_request
      and key = "''6d3a703a3a303a31323334353a313530''" and openai = down and e = "Error ''OpenAI API error: 503 - down''" and now = 1000
      and s = "run sample_host spec_request [Arrive 1 10, Arrive 2 11] idle"
      and waiters = "[1, 2]" and reply = "down (openaiRequest spec_request)" and t = 20
      and caller = 3 and ?t2.0 = 30]
    failure_atomicity [where st = "created\<lparr>pendingRequests :=
        [''6d3a703a3a303a31323334353a313530'' \<mapsto>
           Inl (Error ''OpenAI API error: 503 - down'')]\<rparr>" and h = sample_host
      and req = spec_request and key = "''6d3a703a3a303a31323334353a313530''"
      and openai = down
      and e = "Error ''OpenAI API error: 503 - down''" and now = 1000
      and s = "run sample_host spec_request [Arrive 1 10, Arrive 2 11] idle"
      and waiters = "[1, 2]" and reply = "down (openaiRequest spec_request)" and t = 20
      and caller = 3 and ?t2.0 = 30]
  by (auto simp: created_def callOpenAI_def reply_content_def down_def digit_char_def
      getOrGenerateResponse_def generateAndCache_def new_entry_def Let_def answering_def
      extractContent_def idle_def arrive_def settle_def spec_key)

section \<open>The retention sweep\<close>

lemma sweep_general:
  "sweep c es store d =
     (filter (\<lambda>kv. fst kv \<notin> set (map fst (filter (\<lambda>x. expired c (snd x)) es))) store,
      d + length (filter (\<lambda>x. expired c (snd x)) es))"
proof (induction es arbitrary: store d)
  case Nil
  then show ?case by simp
next
  case (Cons a es)
  obtain k e where a: "a = (k, e)" by (cases a)
  show ?case
  proof (cases "expired c e")
    case True
    have "filter (\<lambda>kv. fst kv \<notin> set (map fst (filter (\<lambda>x. expired c (snd x)) es)))
            (AList.delete k store) =
          filter (\<lambda>kv. fst kv \<notin> set (map fst (filter (\<lambda>x. expired c (snd x)) (a # es)))) store"
      unfolding AList.delete_eq filter_filter a using True
      by (intro filter_cong refl) (auto simp: case_prod_beta)
    then show ?thesis using True by (simp add: Cons.IH a)
  next
    case False
    then show ?thesis by (simp add: Cons.IH a)
  qed
qed



lemma heads: "list_all (\<lambda>w. w \<noteq> [] \<and> \<not> is_digit (hd w) \<and> hd w \<noteq> CHR ''-'') white_space"
  by (simp add: white_space_def is_digit_def)



lemma space_len_none:
  assumes "is_digit c \<or> c = CHR ''-''"
  shows "space_len (c # s) = 0"
proof -
  have "take (length w) (c # s) \<noteq> w" if "w \<in> set white_space" for w
  proof
    assume t: "take (length w) (c # s) = w"
    have h: "w \<noteq> [] \<and> \<not> is_digit (hd w) \<and> hd w \<noteq> CHR ''-''"
      using heads that by (simp add: list_all_iff)
    then obtain x xs where "w = x # xs" by (cases w) auto
    then have "hd w = c" using t by simp
    then show False using h assms by blast
  qed
  then have "find (\<lambda>w. take (length w) (c # s) = w) white_space = None"
    by (simp add: find_None_iff)
  then show ?thesis by (simp add: space_len_def)
qed


lemma skip_space_none: "space_len s = 0 \<Longrightarrow> skip_space s = s"
  by (subst skip_space.simps) simp






lemma dec_nat_not_empty: "dec_nat n \<noteq> []"
  by (cases "n < 10") simp_all

lemma takeWhile_digits:
  assumes "stops rest"
  shows "takeWhile is_digit (dec_nat n @ rest) = dec_nat n"
proof -
  have "takeWhile is_digit rest = []"
    using assms by (cases rest) (simp_all add: stops_def)
  then show ?thesis
    using dec_nat_digits [of _ n] by (simp add: takeWhile_append2)
qed

lemma parseInt_dec_int:
  assumes "stops rest"
  shows "parseInt (dec_int d @ rest) = Some d"
proof (cases "d < 0")
  case True
  let ?n = "nat (- d)"
  have s: "skip_space (CHR ''-'' # dec_nat ?n @ rest) = CHR ''-'' # dec_nat ?n @ rest"
    by (simp add: skip_space_none space_len_none)
  show ?thesis
    using True dec_nat_not_empty [of ?n]
    by (simp add: parseInt_def dec_int_def s takeWhile_digits [OF assms] digits_value_dec_nat)
next
  case False
  let ?n = "nat d"
  obtain c cs where c: "dec_nat ?n = c # cs"
    using dec_nat_not_empty [of ?n] by (cases "dec_nat ?n") auto
  then have digit: "is_digit c"
    using dec_nat_digits [of c ?n] by simp
  then have sign: "c \<noteq> CHR ''-''" "c \<noteq> CHR ''+''"
    by (auto simp: is_digit_def)
  have s: "skip_space (c # cs @ rest) = c # cs @ rest"
    using digit by (simp add: skip_space_none space_len_none)
  have "takeWhile is_digit (c # cs @ rest) = c # cs"
    using takeWhile_digits [OF assms, of ?n] c by simp
  then have "parseInt (c # cs @ rest) = Some (int (digits_value (c # cs)))"
    using sign by (simp add: parseInt_def s del: takeWhile.simps)
  then show ?thesis
    using False c digits_value_dec_nat [of ?n] by (simp add: dec_int_def)
qed

lemma parseInt_90: "parseInt ''90'' = Some 90"
proof -
  have "parseInt (dec_int 90 @ []) = Some 90"
    by (rule parseInt_dec_int) (simp add: stops_def)
  then show ?thesis
    by (simp add: dec_int_def digit_char_def)
qed





section \<open>The route /cleanup\<close>

lemma do_fetch_cleanup:
  assumes "pathname request = ''/cleanup''" and "http_method request = ''POST''"
  shows "do_fetch h env openai now request st =
        (\<lparr>status = 200,
          body = Json (JObj [(''deleted'', JNum (Fin (of_nat (fst (cleanupExpiredEntries env now st))))),
                             (''status'', JStr ''ok'')])\<rparr>,
         snd (cleanupExpiredEntries env now st))"
  unfolding do_fetch_def assms by (simp add: case_prod_beta)

lemma worker_fetch_cleanup:
  assumes "pathname request = ''/cleanup''" and "http_method request = ''POST''"
  shows "worker_fetch h stack env openai now request w =
    (\<lparr>status = 200,
      body = Json (JObj [(''status'', JStr ''ok''),
                         (''message'',
                          JStr ''Cleanup endpoint - implement cron trigger for automatic cleanup'')])\<rparr>,
     w)"
  unfolding worker_fetch_def assms by simp

text \<open>
  C9, as amended. A coordinator answers \<^verbatim>\<open>POST /cleanup\<close> by running the sweep: the
  status is 200, the body is the JSON object with the number of removed entries under
  \<^verbatim>\<open>deleted\<close> and with \<^verbatim>\<open>status\<close> \<^verbatim>\<open>ok\<close>, and the state is the swept one. The worker
  answers \<^verbatim>\<open>POST /cleanup\<close> with the status 200 and a JSON object whose \<^verbatim>\<open>status\<close> is
  \<^verbatim>\<open>ok\<close>.
\<close>

theorem coordinator_cleanup:
  assumes "pathname request = ''/cleanup''" and "http_method request = ''POST''"
  shows "do_fetch h env openai now request st =
           (\<lparr>status = 200,
             body = Json (JObj [(''deleted'',
                                 JNum (Fin (of_nat (fst (cleanupExpiredEntries env now st))))),
                                (''status'', JStr ''ok'')])\<rparr>,
            snd (cleanupExpiredEntries env now st)) \<and>
         (\<exists>j. fst (worker_fetch h stack env openai now request w) = \<lparr>status = 200, body = Json j\<rparr> \<and>
              get_prop j ''status'' = JStr ''ok'')"
  using do_fetch_cleanup [OF assms] worker_fetch_cleanup [OF assms] by simp

text \<open>A coordinator on the hundredth day with one entry cached 91 days ago.\<close>

theorem coordinator_cleanup_witness:
  "do_fetch sample_host no_env down 8640000000
     \<lparr>pathname = ''/cleanup'', http_method = ''POST'', json = Inl (SyntaxError [])\<rparr>
     (created\<lparr>storage :=
        [(''old'', \<lparr>content = ''a'', entry_model = JStr ''m'', entry_seed = JNum (Fin 1),
                    request_hash = ''old'', cached_at = 777600000, last_accessed = 777600000,
                    hit_count = 0\<rparr>)]\<rparr>) =
   (\<lparr>status = 200, body = Json (JObj [(''deleted'', JNum (Fin 1)), (''status'', JStr ''ok'')])\<rparr>,
    created)"
  using coordinator_cleanup [of
      "\<lparr>pathname = ''/cleanup'', http_method = ''POST'', json = Inl (SyntaxError [])\<rparr>"
      sample_host no_env down 8640000000
      "created\<lparr>storage :=
        [(''old'', \<lparr>content = ''a'', entry_model = JStr ''m'', entry_seed = JNum (Fin 1),
                    request_hash = ''old'', cached_at = 777600000, last_accessed = 777600000,
                    hit_count = 0\<rparr>)]\<rparr>"]
  by (simp add: cleanupExpiredEntries_def cutoffTime_def retentionDays_def parseInt_90 no_env_def
      created_def expired_def)

text \<open>
  C9 as stated fails. Every coordinator of this world holds an entry cached 91 days
  before now, which its sweep would remove and count. The worker, the gateway's front
  door, answers \<^verbatim>\<open>POST /cleanup\<close> with a body that has no \<^verbatim>\<open>deletedCount\<close> and returns the
  world as it was: the entry is still stored. A coordinator that is asked itself runs the
  sweep and names the count \<^verbatim>\<open>deleted\<close>; its body has no \<^verbatim>\<open>deletedCount\<close> either.
\<close>

theorem worker_cleanup_no_sweep:
  "snd (worker_fetch sample_host (\<lambda>e. []) no_env down 8640000000
     \<lparr>pathname = ''/cleanup'', http_method = ''POST'', json = Inl (SyntaxError [])\<rparr>
     \<lparr>objects = (\<lambda>name. created\<lparr>storage :=
        [(name, \<lparr>content = ''a'', entry_model = JStr ''m'', entry_seed = JNum (Fin 1),
                 request_hash = name, cached_at = 777600000, last_accessed = 777600000,
                 hit_count = 0\<rparr>)]\<rparr>),
      worker_digests = []\<rparr>) =
     \<lparr>objects = (\<lambda>name. created\<lparr>storage :=
        [(name, \<lparr>content = ''a'', entry_model = JStr ''m'', entry_seed = JNum (Fin 1),
                 request_hash = name, cached_at = 777600000, last_accessed = 777600000,
                 hit_count = 0\<rparr>)]\<rparr>),
      worker_digests = []\<rparr> \<and>
   fst (worker_fetch sample_host (\<lambda>e. []) no_env down 8640000000
     \<lparr>pathname = ''/cleanup'', http_method = ''POST'', json = Inl (SyntaxError [])\<rparr>
     \<lparr>objects = (\<lambda>name. created\<lparr>storage :=
        [(name, \<lparr>content = ''a'', entry_model = JStr ''m'', entry_seed = JNum (Fin 1),
                 request_hash = name, cached_at = 777600000, last_accessed = 777600000,
                 hit_count = 0\<rparr>)]\<rparr>),
      worker_digests = []\<rparr>) =
     \<lparr>status = 200,
      body = Json (JObj [(''status'', JStr ''ok''),
                         (''message'',
                          JStr ''Cleanup endpoint - implement cron trigger for automatic cleanup'')])\<rparr> \<and>
   get_prop (JObj [(''status'', JStr ''ok''),
                   (''message'',
                    JStr ''Cleanup endpoint - implement cron trigger for automatic cleanup'')])
     ''deletedCount'' = JUndefined \<and>
   fst (do_fetch sample_host no_env down 8640000000
     \<lparr>pathname = ''/cleanup'', http_method = ''POST'', json = Inl (SyntaxError [])\<rparr>
     (created\<lparr>storage :=
        [(''k'', \<lparr>content = ''a'', entry_model = JStr ''m'', entry_seed = JNum (Fin 1),
                  request_hash = ''k'', cached_at = 777600000, last_accessed = 777600000,
                  hit_count = 0\<rparr>)]\<rparr>)) =
     \<lparr>status = 200,
      body = Json (JObj [(''deleted'', JNum (Fin 1)), (''status'', JStr ''ok'')])\<rparr> \<and>
   get_prop (JObj [(''deleted'', JNum (Fin 1)), (''status'', JStr ''ok'')]) ''deletedCount'' =
     JUndefined"
  by (simp add: worker_fetch_def do_fetch_def cleanupExpiredEntries_def cutoffTime_def
      retentionDays_def parseInt_90 no_env_def expired_def created_def)

section \<open>Single flight\<close>

lemma joined_not_generated:
  "filter generated (map (\<lambda>caller. (caller, Inr (entry, True))) joined) = []"
  by (induction joined) (simp_all add: generated_def)

lemma joined_received:
  "content entry = c \<Longrightarrow>
   list_all (received c) (map (\<lambda>caller. (caller, Inr (entry, b))) joined)"
  by (induction joined) (simp_all add: received_def)

lemma new_entry_content: "content (new_entry c req k now) = c"
  by (simp add: new_entry_def)
















section \<open>Any interleaving\<close>

lemma arrive_inv:
  assumes "generateCacheKey h req = Inr key" and "flight_inv key req c0 arrived s"
  shows "flight_inv key req c0 (arrived @ [caller])
           (arrive h req caller now s)"
proof (cases "map_of (stored s) key")
  case None
  note absent = None
  show ?thesis
  proof (cases "in_flight s key")
    case None
    then show ?thesis using assms absent
      by (simp add: flight_inv_def arrive_def)
  next
    case (Some rw)
    obtain r waiters where "rw = (r, waiters)" by (cases rw)
    then show ?thesis using assms absent Some
      by (simp add: flight_inv_def arrive_def)
  qed
next
  case (Some e)
  then show ?thesis using assms
    by (simp add: flight_inv_def arrive_def Let_def update_conv' received_def generated_def)
qed

lemma settle_inv:
  assumes "flight_inv k req c0 arrived s"
    and "reply_content reply = Inr c"
  shows "flight_inv k req c0 arrived (settle k reply now s)"
proof (cases "in_flight s k")
  case None
  then show ?thesis using assms(1) by (simp add: settle_def)
next
  case (Some rw)
  obtain r waiters where rw: "rw = (r, waiters)" by (cases rw)
  have absent: "map_of (stored s) k = None"
    using assms(1) Some by (cases "map_of (stored s) k") (simp_all add: flight_inv_def)
  then have w: "r = req" "waiters = arrived" "arrived \<noteq> []" "returned s = []"
      "sent s = c0 @ [openaiRequest req]"
    using assms(1) Some rw by (simp_all add: flight_inv_def)
  obtain initiator joined where a: "arrived = initiator # joined"
    using w(3) by (cases arrived) auto
  show ?thesis
    using Some rw absent w a assms(2)
    by (simp add: flight_inv_def settle_def Let_def update_conv' joined_not_generated
        joined_received new_entry_content received_def generated_def comp_def)
qed

lemma step_inv:
  assumes "generateCacheKey h req = Inr key"
    and "flight_inv key req c0 arrived s" and "answered ev"
  shows "flight_inv key req c0 (arrived @ arrivals [ev])
           (step h req ev s)"
proof (cases ev)
  case (Arrive caller now)
  then show ?thesis using arrive_inv [OF assms(1,2)] by simp
next
  case (Settle reply now)
  then obtain c where "reply_content reply = Inr c"
    using assms(3) by (cases "reply_content reply") simp_all
  then show ?thesis using settle_inv [OF assms(2)] Settle assms(1) by simp
qed

lemma arrivals_Cons: "arrivals (ev # events) = arrivals [ev] @ arrivals events"
  by (cases ev) simp_all

lemma run_inv:
  assumes "generateCacheKey h req = Inr key"
    and "flight_inv key req c0 arrived s"
    and "list_all answered events"
  shows "flight_inv key req c0 (arrived @ arrivals events)
           (run h req events s)"
  using assms(2,3)
proof (induction events arbitrary: s arrived)
  case Nil
  then show ?case by simp
next
  case (Cons ev events)
  have "flight_inv key req c0 ((arrived @ arrivals [ev]) @ arrivals events)
          (run h req events (step h req ev s))"
    using Cons.prems assms(1) by (intro Cons.IH step_inv) simp_all
  then show ?case by (simp add: arrivals_Cons [of ev events])
qed

text \<open>
  Let \<open>key\<close> be the key derived for a request, let a coordinator hold no entry and no
  pending generation under it, and let callers with that request arrive, at least one,
  in any interleaving with the replies of an upstream that answers every generation with
  a content. Then at every moment exactly one request has gone upstream; every caller
  that has returned has returned an entry with one and the same content; at most one of
  them has the flag \<^verbatim>\<open>cached\<close> not set; and when no generation is in flight every caller
  has returned, in the order of arrival, exactly one of them with the flag not set.
\<close>

theorem any_interleaving:
  assumes "generateCacheKey h req = Inr key"
    and "map_of (stored s) key = None"
    and "in_flight s key = None"
    and "returned s = []"
    and "list_all answered events"
    and "arrivals events \<noteq> []"
  shows "sent (run h req events s) = sent s @ [openaiRequest req] \<and>
         (\<exists>c. list_all (received c) (returned (run h req events s))) \<and>
         length (filter generated (returned (run h req events s))) \<le> 1 \<and>
         (in_flight (run h req events s) key = None \<longrightarrow>
            map fst (returned (run h req events s)) = arrivals events \<and>
            length (filter generated (returned (run h req events s))) = 1)"
proof -
  let ?s = "run h req events s"
  have "flight_inv key req (sent s) [] s"
    using assms(2-4) by (simp add: flight_inv_def)
  then have inv: "flight_inv key req (sent s) (arrivals events) ?s"
    using run_inv [OF assms(1) _ assms(5), of "sent s" "[]" s] by simp
  show ?thesis
  proof (cases "map_of (stored ?s) key")
    case None
    then obtain r waiters where "in_flight ?s key = Some (r, waiters)"
      and "returned ?s = []" and "sent ?s = sent s @ [openaiRequest req]"
      using inv assms(6)
      by (cases "in_flight ?s key") (auto simp: flight_inv_def)
    then show ?thesis by simp
  next
    case (Some e)
    then have "sent ?s = sent s @ [openaiRequest req]"
      and "map fst (returned ?s) = arrivals events"
      and "list_all (received (content e)) (returned ?s)"
      and "length (filter generated (returned ?s)) = 1"
      using inv by (simp_all add: flight_inv_def)
    then show ?thesis by auto
  qed
qed

text \<open>
  Two callers, a reply that no generation awaits, a third caller, the reply, and a
  fourth caller: one request goes upstream and all four return \<^verbatim>\<open>hello\<close>, the first alone
  with the flag not set. Before the reply nobody has returned.
\<close>

theorem any_interleaving_witness:
  "sent (run sample_host spec_request
      [Arrive 1 10, Arrive 2 11, Arrive 3 12,
       Settle (answering (openaiRequest spec_request)) 20,
       Settle (answering (openaiRequest spec_request)) 21, Arrive 4 22] idle) =
     [openaiRequest spec_request] \<and>
   list_all (received ''hello'') (returned (run sample_host spec_request
      [Arrive 1 10, Arrive 2 11, Arrive 3 12,
       Settle (answering (openaiRequest spec_request)) 20,
       Settle (answering (openaiRequest spec_request)) 21, Arrive 4 22] idle)) \<and>
   map fst (filter generated (returned (run sample_host spec_request
      [Arrive 1 10, Arrive 2 11, Arrive 3 12,
       Settle (answering (openaiRequest spec_request)) 20,
       Settle (answering (openaiRequest spec_request)) 21, Arrive 4 22] idle))) = [1] \<and>
   map fst (returned (run sample_host spec_request
      [Arrive 1 10, Arrive 2 11, Arrive 3 12,
       Settle (answering (openaiRequest spec_request)) 20,
       Settle (answering (openaiRequest spec_request)) 21, Arrive 4 22] idle)) = [1, 2, 3, 4] \<and>
   returned (run sample_host spec_request [Arrive 1 10, Arrive 2 11] idle) = [] \<and>
   sent (run sample_host spec_request [Arrive 1 10, Arrive 2 11] idle) =
     [openaiRequest spec_request]"
  using any_interleaving [where h = sample_host and req = spec_request
      and key = "''6d3a703a3a303a31323334353a313530''" and s = idle
      and events = "[Arrive 1 10, Arrive 2 11, Arrive 3 12,
       Settle (answering (openaiRequest spec_request)) 20,
       Settle (answering (openaiRequest spec_request)) 21, Arrive 4 22]"]
    any_interleaving [where h = sample_host and req = spec_request
      and key = "''6d3a703a3a303a31323334353a313530''" and s = idle
      and events = "[Arrive 1 10, Arrive 2 11]"]
  by (simp add: spec_key idle_def arrive_def settle_def reply_content_def answering_def
      extractContent_def new_entry_def received_def generated_def Let_def)

section \<open>One caller alone\<close>

text \<open>
  Let \<open>key\<close> be the key derived for a request. A caller with that request that arrives
  when nothing is in flight for the key, and whose generation, if
  it starts one, is answered before any other event, does what the call run to its end
  does: the same entries are stored, the same requests are sent, and the caller returns
  the result of the call.
\<close>

theorem run_to_completion:
  assumes "generateCacheKey h req = Inr key"
    and "stored s = storage st" and "sent s = upstream_calls st"
    and "in_flight s key = None"
    and "pendingRequests st key = None"
  shows "stored (run h req [Arrive caller now, Settle (openai (openaiRequest req)) now] s) =
           storage (snd (getOrGenerateResponse h openai now req st)) \<and>
         sent (run h req [Arrive caller now, Settle (openai (openaiRequest req)) now] s) =
           upstream_calls (snd (getOrGenerateResponse h openai now req st)) \<and>
         returned (run h req [Arrive caller now, Settle (openai (openaiRequest req)) now] s) =
           returned s @ [(caller, fst (getOrGenerateResponse h openai now req st))] \<and>
         in_flight (run h req [Arrive caller now, Settle (openai (openaiRequest req)) now] s)
           key = None \<and>
         pendingRequests (snd (getOrGenerateResponse h openai now req st))
           key = None"
proof (cases "map_of (storage st) key")
  case (Some cached)
  then show ?thesis using assms
    by (simp add: arrive_def settle_def getOrGenerateResponse_def Let_def)
next
  case None
  show ?thesis
  proof (cases "reply_content (openai (openaiRequest req))")
    case (Inl e)
    then show ?thesis using assms None
      by (simp add: arrive_def settle_def getOrGenerateResponse_def generateAndCache_def
          callOpenAI_def Let_def)
  next
    case (Inr c)
    then show ?thesis using assms None
      by (simp add: arrive_def settle_def getOrGenerateResponse_def generateAndCache_def
          callOpenAI_def Let_def)
  qed
qed

theorem run_to_completion_witness:
  "returned (run sample_host spec_request
     [Arrive 1 1000, Settle (answering (openaiRequest spec_request)) 1000] idle) =
     [(1, fst (getOrGenerateResponse sample_host answering 1000 spec_request created))] \<and>
   stored (run sample_host spec_request
     [Arrive 1 1000, Settle (answering (openaiRequest spec_request)) 1000] idle) =
     storage (snd (getOrGenerateResponse sample_host answering 1000 spec_request created))"
  using run_to_completion [where s = idle and st = created and h = sample_host
      and req = spec_request and key = "''6d3a703a3a303a31323334353a313530''" and caller = 1
      and now = 1000 and openai = answering]
  by (simp add: idle_def created_def spec_key)

section \<open>The storage holds each key once\<close>

text \<open>
  Neither a call nor a sweep makes the storage list a key twice, so the storage of a
  coordinator, empty when it is created, lists each key once at all times.
\<close>

theorem storage_keys_distinct:
  assumes "distinct (map fst (storage st))"
  shows "distinct (map fst (storage (snd (getOrGenerateResponse h openai now req st)))) \<and>
         distinct (map fst (storage (snd (cleanupExpiredEntries env now st))))"
proof
  show "distinct (map fst (storage (snd (getOrGenerateResponse h openai now req st))))"
    using assms
    by (cases "fst (callOpenAI openai req st)")
       (simp_all add: getOrGenerateResponse_def generateAndCache_def Let_def callOpenAI_digests
          distinct_update split: option.splits sum.splits)
next
  show "distinct (map fst (storage (snd (cleanupExpiredEntries env now st))))"
    using assms
    by (simp add: cleanupExpiredEntries_def sweep_general distinct_map_filter Let_def)
qed

theorem storage_keys_distinct_witness:
  "distinct (map fst (storage created)) \<and>
   distinct (map fst (storage (snd (getOrGenerateResponse sample_host answering 1000 spec_request
     created)))) \<and>
   distinct (map fst (storage (snd (cleanupExpiredEntries no_env 1000 created))))"
  using storage_keys_distinct [of created sample_host answering 1000 spec_request no_env]
  by (simp add: created_def)


section \<open>A request whose key cannot be derived\<close>

lemma valid_fields:
  assumes "valid (validateRequest req)"
  shows "\<exists>m p n. model req = JStr m \<and> prompt req = JStr p \<and> seed req = JNum n"
  using assms unfolding validateRequest_valid_iff by blast

text \<open>
  A request that validation accepts and whose system prompt is an object with a
  property \<^verbatim>\<open>toString\<close> of its own has no key: the conversion of the object to text throws
  a TypeError. When the key of a request cannot be derived, a call to the coordinator
  throws the same error and leaves the coordinator as it was, and the worker answers the
  request to \<^verbatim>\<open>POST /generate\<close> with status 500 and the code \<^verbatim>\<open>WORKER_ERROR\<close>, having
  reached no coordinator.
\<close>

theorem underivable_key:
  "(valid (validateRequest req) \<and> system_prompt req = JObj fs \<and> ''toString'' \<in> set (map fst fs) \<longrightarrow>
      generateCacheKey h req = Inl (TypeError ''Cannot convert object to primitive value'')) \<and>
   (generateCacheKey h req = Inl e \<longrightarrow>
      getOrGenerateResponse h openai now req st = (Inl e, st)) \<and>
   (generateCacheKey h req = Inl e \<and> valid (validateRequest req) \<and> json request = Inr v \<and>
    as_request v = Inr req \<and> pathname request = ''/generate'' \<and> http_method request = ''POST'' \<longrightarrow>
      worker_fetch h stack env openai now request w =
        (\<lparr>status = 500,
          body = Json (JObj [(''error'', JStr (error_text e)), (''code'', JStr ''WORKER_ERROR''),
                             (''details'', JStr (stack e))])\<rparr>, w))"
proof (intro conjI impI)
  assume a: "valid (validateRequest req) \<and> system_prompt req = JObj fs \<and>
    ''toString'' \<in> set (map fst fs)"
  then obtain m p n where "model req = JStr m" "prompt req = JStr p" "seed req = JNum n"
    using valid_fields by blast
  then show "generateCacheKey h req = Inl (TypeError ''Cannot convert object to primitive value'')"
    using a by (simp add: generateCacheKey_def keyString_def coalesce_def Let_def)
next
  assume "generateCacheKey h req = Inl e"
  then show "getOrGenerateResponse h openai now req st = (Inl e, st)"
    by (simp add: getOrGenerateResponse_def)
next
  assume a: "generateCacheKey h req = Inl e \<and> valid (validateRequest req) \<and> json request = Inr v \<and>
    as_request v = Inr req \<and> pathname request = ''/generate'' \<and> http_method request = ''POST''"
  then have "generate h env openai now request w = (Inl e, w)"
    by (simp add: generate_def Let_def)
  then show "worker_fetch h stack env openai now request w =
        (\<lparr>status = 500,
          body = Json (JObj [(''error'', JStr (error_text e)), (''code'', JStr ''WORKER_ERROR''),
                             (''details'', JStr (stack e))])\<rparr>, w)"
    using a by (simp add: worker_fetch_def)
qed

text \<open>The scenario's request with the system prompt \<^verbatim>\<open>{"toString": 1}\<close>.\<close>

theorem underivable_key_witness:
  "valid (validateRequest (spec_request\<lparr>system_prompt := JObj [(''toString'', JNum (Fin 1))]\<rparr>)) \<and>
   generateCacheKey sample_host (spec_request\<lparr>system_prompt := JObj [(''toString'', JNum (Fin 1))]\<rparr>) =
     Inl (TypeError ''Cannot convert object to primitive value'') \<and>
   getOrGenerateResponse sample_host answering 1000
     (spec_request\<lparr>system_prompt := JObj [(''toString'', JNum (Fin 1))]\<rparr>) created =
     (Inl (TypeError ''Cannot convert object to primitive value''), created) \<and>
   as_request (JObj [(''model'', JStr ''m''), (''prompt'', JStr ''p''), (''seed'', JNum (Fin 12345)),
                     (''temperature'', JNum (Fin 0)),
                     (''system_prompt'', JObj [(''toString'', JNum (Fin 1))])]) =
     Inr (spec_request\<lparr>system_prompt := JObj [(''toString'', JNum (Fin 1))]\<rparr>) \<and>
   worker_fetch sample_host (\<lambda>e. []) no_env answering 1000
     \<lparr>pathname = ''/generate'', http_method = ''POST'',
      json = Inr (JObj [(''model'', JStr ''m''), (''prompt'', JStr ''p''),
                        (''seed'', JNum (Fin 12345)), (''temperature'', JNum (Fin 0)),
                        (''system_prompt'', JObj [(''toString'', JNum (Fin 1))])])\<rparr>
     \<lparr>objects = (\<lambda>name. created), worker_digests = []\<rparr> =
     (\<lparr>status = 500,
       body = Json (JObj [(''error'', JStr ''Cannot convert object to primitive value''),
                          (''code'', JStr ''WORKER_ERROR''), (''details'', JStr [])])\<rparr>,
      \<lparr>objects = (\<lambda>name. created), worker_digests = []\<rparr>)"
  using underivable_key [where req = "spec_request\<lparr>system_prompt := JObj [(''toString'', JNum (Fin 1))]\<rparr>"
      and fs = "[(''toString'', JNum (Fin 1))]" and h = sample_host
      and e = "TypeError ''Cannot convert object to primitive value''" and openai = answering
      and now = 1000 and st = created
      and request = "\<lparr>pathname = ''/generate'', http_method = ''POST'',
      json = Inr (JObj [(''model'', JStr ''m''), (''prompt'', JStr ''p''),
                        (''seed'', JNum (Fin 12345)), (''temperature'', JNum (Fin 0)),
                        (''system_prompt'', JObj [(''toString'', JNum (Fin 1))])])\<rparr>"
      and v = "JObj [(''model'', JStr ''m''), (''prompt'', JStr ''p''), (''seed'', JNum (Fin 12345)),
                     (''temperature'', JNum (Fin 0)),
                     (''system_prompt'', JObj [(''toString'', JNum (Fin 1))])]"
      and stack = "\<lambda>e. []" and env = no_env
      and w = "\<lparr>objects = (\<lambda>name. created), worker_digests = []\<rparr>"]
  by (simp add: validateRequest_def as_request_def spec_request_def coalesce_def error_text_def)


end
